theory Spec2Isabelle
  imports Complex_Main "HOL-Library.AList"
begin

section \<open>Python values and exceptions\<close>

text \<open>
  The harness of \<^verbatim>\<open>PHASE_3.6_TEST_EXECUTION.py\<close> is embedded function by function.
  Values that reach the harness from JSON bodies (entry identifiers, tokens) are arbitrary
  Python values. The amounts of the database (NUMERIC columns, which the driver hands over
  as Decimals) are exact rationals; where the harness turns one into a float, and in every
  operation on floats after that, the result is rounded as IEEE 754 binary64 rounds it
  (a NUMERIC that is NaN is not modelled, and the success rate of the summary, a quotient
  of two counts, is kept exact).
  Console output of the scenarios is not modelled; the output of \<^verbatim>\<open>print_summary\<close>
  is.
\<close>

datatype py_error =
    AttributeError | ZeroDivisionError | DatabaseError | OSError

datatype pyval =
    PNone | PBool bool | PNum rat | PStr string | PList "pyval list"
  | PDict "(string \<times> pyval) list"

text \<open>Python truth value testing (\<^verbatim>\<open>if x:\<close>, \<^verbatim>\<open>not x\<close>, \<^verbatim>\<open>x and y\<close>).\<close>

fun truthy :: "pyval \<Rightarrow> bool" where
  "truthy PNone = False"
| "truthy (PBool b) = b"
| "truthy (PNum x) = (x \<noteq> 0)"
| "truthy (PStr s) = (s \<noteq> [])"
| "truthy (PList xs) = (xs \<noteq> [])"
| "truthy (PDict kvs) = (kvs \<noteq> [])"

text \<open>\<^verbatim>\<open>d.get(k, default)\<close>: only a dict has the method; in a dict parsed from JSON
  the last occurrence of a repeated key wins.\<close>

fun py_get :: "pyval \<Rightarrow> string \<Rightarrow> pyval \<Rightarrow> py_error + pyval" where
  "py_get (PDict kvs) k d = Inr (case map_of (rev kvs) k of None \<Rightarrow> d | Some v \<Rightarrow> v)"
| "py_get PNone k d = Inl AttributeError"
| "py_get (PBool b) k d = Inl AttributeError"
| "py_get (PNum x) k d = Inl AttributeError"
| "py_get (PStr s) k d = Inl AttributeError"
| "py_get (PList xs) k d = Inl AttributeError"

section \<open>Python floats\<close>

text \<open>A float is an IEEE 754 binary64 number: a finite one is the rational it denotes
  (the sign of a zero is not kept; it shows only in printed text), and there are the two
  infinities and NaN.\<close>

datatype pyfloat = Finite rat | PosInf | NegInf | NaN

text \<open>\<^verbatim>\<open>int.bit_length\<close> of a positive integer.\<close>

function bit_length :: "int \<Rightarrow> int" where
  "bit_length n = (if n \<le> 0 then 0 else 1 + bit_length (n div 2))"
  by pat_completeness auto
termination
  by (relation "measure nat") auto

declare bit_length.simps [simp del]

definition pow2 :: "int \<Rightarrow> rat" where
  "pow2 e = (if 0 \<le> e then 2 ^ nat e else 1 / 2 ^ nat (- e))"

text \<open>The exponent of a positive number: the \<open>k\<close> with \<open>2 ^ k \<le> x < 2 ^ (k + 1)\<close>.\<close>

definition ilog2 :: "rat \<Rightarrow> int" where
  "ilog2 x = (if 1 \<le> x then bit_length \<lfloor>x\<rfloor> - 1 else - bit_length (\<lceil>1 / x\<rceil> - 1))"

definition round_half_even :: "rat \<Rightarrow> int" where
  "round_half_even y =
     (let f = \<lfloor>y\<rfloor>; r = y - of_int f
      in if r < 1 / 2 then f else if 1 / 2 < r then f + 1 else if even f then f else f + 1)"

text \<open>The float nearest to a number, ties to even: \<^verbatim>\<open>float(x)\<close> of a Decimal or an
  int, the value of a literal, and the rounding of every float operation. The significand
  has 53 bits, the least exponent of a unit in the last place is -1074, and a result
  beyond the largest float, \<open>(2 ^ 53 - 1) * 2 ^ 971\<close>, is an infinity.\<close>

definition py_float :: "rat \<Rightarrow> pyfloat" where
  "py_float x =
     (if x = 0 then Finite 0
      else let e = max (ilog2 \<bar>x\<bar> - 52) (- 1074);
               m = round_half_even (\<bar>x\<bar> / pow2 e)
           in if 971 < e \<or> (e = 971 \<and> 2 ^ 53 \<le> m) then (if 0 < x then PosInf else NegInf)
              else Finite (if 0 < x then of_int m * pow2 e else - (of_int m * pow2 e)))"

fun fneg :: "pyfloat \<Rightarrow> pyfloat" where
  "fneg (Finite x) = Finite (- x)"
| "fneg PosInf = NegInf"
| "fneg NegInf = PosInf"
| "fneg NaN = NaN"

text \<open>\<^verbatim>\<open>a + b\<close>: the exact sum, rounded.\<close>

fun fadd :: "pyfloat \<Rightarrow> pyfloat \<Rightarrow> pyfloat" where
  "fadd (Finite a) (Finite b) = py_float (a + b)"
| "fadd NaN b = NaN"
| "fadd a NaN = NaN"
| "fadd PosInf NegInf = NaN"
| "fadd NegInf PosInf = NaN"
| "fadd PosInf b = PosInf"
| "fadd a PosInf = PosInf"
| "fadd NegInf b = NegInf"
| "fadd a NegInf = NegInf"

definition fsub :: "pyfloat \<Rightarrow> pyfloat \<Rightarrow> pyfloat" where
  "fsub a b = fadd a (fneg b)"

fun fabs :: "pyfloat \<Rightarrow> pyfloat" where
  "fabs (Finite x) = Finite \<bar>x\<bar>"
| "fabs PosInf = PosInf"
| "fabs NegInf = PosInf"
| "fabs NaN = NaN"

text \<open>\<^verbatim>\<open>a < b\<close>: false when either side is NaN.\<close>

fun flt :: "pyfloat \<Rightarrow> pyfloat \<Rightarrow> bool" where
  "flt (Finite a) (Finite b) = (a < b)"
| "flt NaN b = False"
| "flt a NaN = False"
| "flt a NegInf = False"
| "flt PosInf b = False"
| "flt NegInf b = True"
| "flt a PosInf = True"

text \<open>\<^verbatim>\<open>sum\<close> over floats as a chain of additions from the start value 0, the way
  CPython computes it up to 3.11.\<close>

definition sum_left :: "pyfloat list \<Rightarrow> pyfloat" where
  "sum_left xs = foldl fadd (Finite 0) xs"

section \<open>TestResults\<close>

text \<open>A diagnostic text: a fixed message, or an f-string template with the numbers it
  formats (\<^verbatim>\<open>{x:,.2f}\<close>).\<close>

datatype details = Msg string | Fmt string "pyfloat list"

text \<open>One element of \<^verbatim>\<open>self.tests\<close>: the dict literal built by \<^verbatim>\<open>add_test\<close>.\<close>

record test_rec =
  t_name :: string
  t_passed :: pyval
  t_details :: details
  t_entry_id :: pyval
  t_timestamp :: string

record TestResults =
  tests :: "test_rec list"
  passed :: int
  failed :: int

definition TestResults_init :: TestResults where
  "TestResults_init = \<lparr>tests = [], passed = 0, failed = 0\<rparr>"

text \<open>\<^verbatim>\<open>add_test\<close>; \<open>now\<close> is the reading of \<^verbatim>\<open>datetime.now().isoformat()\<close>.\<close>

definition add_test ::
  "TestResults \<Rightarrow> string \<Rightarrow> pyval \<Rightarrow> details \<Rightarrow> pyval \<Rightarrow> string \<Rightarrow> TestResults" where
  "add_test self name p d entry_id now =
     (let self1 = self\<lparr>tests := tests self @
            [\<lparr>t_name = name, t_passed = p, t_details = d, t_entry_id = entry_id,
              t_timestamp = now\<rparr>]\<rparr>
      in if truthy p then self1\<lparr>passed := passed self1 + 1\<rparr>
         else self1\<lparr>failed := failed self1 + 1\<rparr>)"

datatype out_line =
    Rule | Title | PassedLine int int | FailedLine int int | RateLine rat
  | StatusLine bool string | DetailsLine details | EntryIdLine pyval

definition test_lines :: "test_rec \<Rightarrow> out_line list" where
  "test_lines t =
     [StatusLine (truthy (t_passed t)) (t_name t)]
     @ (if \<not> truthy (t_passed t) then [DetailsLine (t_details t)] else [])
     @ (if truthy (t_entry_id t) then [EntryIdLine (t_entry_id t)] else [])"

text \<open>\<^verbatim>\<open>print_summary\<close>: the lines printed, and how the call ends. The success rate
  is \<^verbatim>\<open>self.passed/total*100\<close>, Python's true division, which raises on a zero
  divisor after the five lines before it are out.\<close>

definition print_summary :: "TestResults \<Rightarrow> out_line list \<times> (py_error + unit)" where
  "print_summary self =
     (let total = passed self + failed self;
          head = [Rule, Title, Rule, PassedLine (passed self) total,
                  FailedLine (failed self) total]
      in if total = 0 then (head, Inl ZeroDivisionError)
         else (head @ [RateLine (of_int (passed self) / of_int total * 100), Rule]
                 @ concat (map test_lines (tests self)), Inr ()))"

section \<open>Database utilities\<close>

text \<open>Rows of the three tables the harness reads, with the columns its queries name.
  The table definitions are not part of the harness: whatever further columns a detail
  row has are kept as name/value pairs in \<open>jed_other\<close>; the query reads none of them.\<close>

record coa_row =
  coa_id :: int
  coa_account_code :: string
  coa_company_id :: int
  coa_deleted_at :: "string option"

record je_row =
  je_id :: int
  je_company_id :: int
  je_status :: string
  je_deleted_at :: "string option"

record jed_row =
  jed_company_id :: int
  jed_journal_entry_id :: int
  jed_account_id :: int
  jed_debit_amount :: rat
  jed_credit_amount :: rat
  jed_other :: "(string \<times> pyval) list"

text \<open>The persisted state of the ledger as the harness sees it. \<open>db_reachable\<close>:
  \<^verbatim>\<open>psycopg2.connect\<close> succeeds; \<open>db_query_ok\<close>: \<^verbatim>\<open>cur.execute\<close> succeeds (when it
  does not, it raises a \<^verbatim>\<open>psycopg2.Error\<close>, which no function of the harness below
  \<^verbatim>\<open>main\<close> catches).\<close>

record world =
  db_reachable :: bool
  db_query_ok :: bool
  chart_of_accounts :: "coa_row list"
  journal_entries :: "je_row list"
  journal_entry_details :: "jed_row list"

definition TEST_COMPANY_ID :: int where
  "TEST_COMPANY_ID = 1"

text \<open>\<^verbatim>\<open>connect_db\<close>: \<open>Inl code\<close> is \<^verbatim>\<open>sys.exit(code)\<close>.\<close>

definition connect_db :: "world \<Rightarrow> int + unit" where
  "connect_db w = (if db_reachable w then Inr () else Inl 1)"

definition get_account_id :: "world \<Rightarrow> string \<Rightarrow> int \<Rightarrow> py_error + int option" where
  "get_account_id w account_code company_id =
     (if \<not> db_query_ok w then Inl DatabaseError
      else case filter (\<lambda>r. coa_account_code r = account_code
                           \<and> coa_company_id r = company_id
                           \<and> coa_deleted_at r = None) (chart_of_accounts w) of
             [] \<Rightarrow> Inr None
           | r # _ \<Rightarrow> Inr (Some (coa_id r)))"

text \<open>The query of \<^verbatim>\<open>get_trial_balance\<close>. The subquery:\<close>

definition posted_entry_ids :: "world \<Rightarrow> int \<Rightarrow> int list" where
  "posted_entry_ids w company_id =
     map je_id (filter (\<lambda>e. je_company_id e = company_id \<and> je_status e = ''posted''
                            \<and> je_deleted_at e = None) (journal_entries w))"

text \<open>The rows its WHERE clause keeps:\<close>

definition tb_selected :: "world \<Rightarrow> int \<Rightarrow> jed_row list" where
  "tb_selected w company_id =
     filter (\<lambda>l. jed_company_id l = company_id
                \<and> jed_journal_entry_id l \<in> set (posted_entry_ids w company_id))
       (journal_entry_details w)"

text \<open>\<^verbatim>\<open>CASE WHEN x > 0 THEN x ELSE 0 END\<close>\<close>

definition case_pos :: "rat \<Rightarrow> rat" where
  "case_pos x = (if x > 0 then x else 0)"

text \<open>GROUP BY account_id with the two SUMs: one tuple per account (the order of the
  groups is the database's choice; here, an order of appearance).\<close>

definition tb_query :: "world \<Rightarrow> int \<Rightarrow> (int \<times> rat \<times> rat) list" where
  "tb_query w company_id =
     (let sel = tb_selected w company_id
      in map (\<lambda>a. (a,
                sum_list (map (\<lambda>l. case_pos (jed_debit_amount l))
                            (filter (\<lambda>l. jed_account_id l = a) sel)),
                sum_list (map (\<lambda>l. case_pos (jed_credit_amount l))
                            (filter (\<lambda>l. jed_account_id l = a) sel))))
           (remdups (map jed_account_id sel)))"

text \<open>One value of the dict \<^verbatim>\<open>results\<close>. A field holds the number that \<^verbatim>\<open>float\<close> is
  applied to; the float stored under \<^verbatim>\<open>'debit'\<close> and \<^verbatim>\<open>'credit'\<close>, which is what a
  reader of the dict gets, is \<open>row_debit\<close> and \<open>row_credit\<close> below.\<close>

record tb_row =
  tb_debit :: rat
  tb_credit :: rat
  tb_balance :: rat

text \<open>\<^verbatim>\<open>x or 0\<close> on a number.\<close>

definition or0 :: "rat \<Rightarrow> rat" where
  "or0 x = (if x = 0 then 0 else x)"

text \<open>The loop over \<^verbatim>\<open>cur.fetchall()\<close>; \<^verbatim>\<open>results[account_id] = ...\<close> on a dict that
  keeps insertion order is \<open>AList.update\<close>.\<close>

definition tb_rows :: "(int \<times> rat \<times> rat) list \<Rightarrow> (int \<times> tb_row) list" where
  "tb_rows fetched =
     fold (\<lambda>(account_id, debit, credit) results.
             AList.update account_id
               \<lparr>tb_debit = or0 debit, tb_credit = or0 credit,
                tb_balance = or0 debit - or0 credit\<rparr> results)
          fetched []"

definition get_trial_balance :: "world \<Rightarrow> int \<Rightarrow> py_error + (int \<times> tb_row) list" where
  "get_trial_balance w company_id =
     (if \<not> db_query_ok w then Inl DatabaseError
      else Inr (tb_rows (tb_query w company_id)))"

text \<open>\<^verbatim>\<open>acc['debit']\<close> and \<^verbatim>\<open>acc['credit']\<close>: \<^verbatim>\<open>float(debit or 0)\<close> and
  \<^verbatim>\<open>float(credit or 0)\<close>.\<close>

definition row_debit :: "tb_row \<Rightarrow> pyfloat" where
  "row_debit acc = py_float (tb_debit acc)"

definition row_credit :: "tb_row \<Rightarrow> pyfloat" where
  "row_credit acc = py_float (tb_credit acc)"

section \<open>API utilities\<close>

text \<open>An HTTP exchange ends with a response (status code, and the body as
  \<^verbatim>\<open>response.json()\<close> reads it: \<open>None\<close> when the body is not JSON, so that the call
  raises) or with an exception of \<^verbatim>\<open>requests\<close>.\<close>

datatype http_result = Response nat "pyval option" | RequestException

record line_data =
  l_account_id :: int
  l_debit_amount :: rat
  l_credit_amount :: rat
  l_description :: string

record entry_data =
  e_entry_type :: string
  e_entry_date :: string
  e_posting_date :: string
  e_description :: string
  e_details :: "line_data list"

text \<open>What the harness runs against: the day of the run (\<^verbatim>\<open>TEST_DATE\<close>), the clock
  (its reading when the n-th result is recorded), whether the results file can be opened
  for writing, the interpreter's built-in \<^verbatim>\<open>sum\<close> on the floats of a trial balance (a
  chain of additions up to CPython 3.11, a compensated sum from 3.12; the two can differ
  in the last bits), and the ledger behind the three endpoints the harness posts to. The ledger
  is not part of the harness: each endpoint is any function from the persisted state and
  the request (credentials; bearer token and entry; bearer token and entry identifier) to
  the new state and the outcome of the exchange.\<close>

record env =
  TEST_DATE :: string
  clock :: "nat \<Rightarrow> string"
  file_writable :: bool
  float_sum :: "pyfloat list \<Rightarrow> pyfloat"
  serve_login :: "world \<Rightarrow> string \<Rightarrow> string \<Rightarrow> world \<times> http_result"
  serve_create :: "world \<Rightarrow> pyval \<Rightarrow> entry_data \<Rightarrow> world \<times> http_result"
  serve_post :: "world \<Rightarrow> pyval \<Rightarrow> pyval \<Rightarrow> world \<times> http_result"

record APIClient =
  token :: pyval
  user_id :: pyval

definition APIClient_init :: APIClient where
  "APIClient_init = \<lparr>token = PNone, user_id = PNone\<rparr>"

text \<open>The body of the \<^verbatim>\<open>try\<close> of \<^verbatim>\<open>login\<close> once the response is there: the client
  as the assignments leave it, and the value returned or the exception raised.\<close>

definition login_response :: "APIClient \<Rightarrow> nat \<Rightarrow> pyval option \<Rightarrow> APIClient \<times> (py_error + bool)" where
  "login_response self status body =
     (if status = 200 then
        (case body of
           None \<Rightarrow> (self, Inl AttributeError)
         | Some data \<Rightarrow>
            (case py_get data ''data'' (PDict []) of
               Inl e \<Rightarrow> (self, Inl e)
             | Inr d \<Rightarrow>
                (case py_get d ''accessToken'' PNone of
                   Inl e \<Rightarrow> (self, Inl e)
                 | Inr tok \<Rightarrow>
                    (let self1 = self\<lparr>token := tok\<rparr> in
                     case py_get d ''user'' (PDict []) of
                       Inl e \<Rightarrow> (self1, Inl e)
                     | Inr u \<Rightarrow>
                        (case py_get u ''id'' PNone of
                           Inl e \<Rightarrow> (self1, Inl e)
                         | Inr uid \<Rightarrow> (self1\<lparr>user_id := uid\<rparr>, Inr True))))))
      else (self, Inr False))"

definition login :: "env \<Rightarrow> world \<Rightarrow> APIClient \<Rightarrow> string \<Rightarrow> string \<Rightarrow> world \<times> APIClient \<times> bool" where
  "login E w self email password =
     (case serve_login E w email password of
        (w', RequestException) \<Rightarrow> (w', self, False)
      | (w', Response status body) \<Rightarrow>
          (case login_response self status body of
             (self', Inl e) \<Rightarrow> (w', self', False)
           | (self', Inr b) \<Rightarrow> (w', self', b)))"

text \<open>The body of the \<^verbatim>\<open>try\<close> of \<^verbatim>\<open>create_journal_entry\<close> once the response is
  there.\<close>

definition create_response :: "nat \<Rightarrow> pyval option \<Rightarrow> py_error + pyval" where
  "create_response status body =
     (if status = 200 \<or> status = 201 then
        (case body of
           None \<Rightarrow> Inl AttributeError
         | Some j \<Rightarrow>
            (case py_get j ''data'' (PDict []) of
               Inl e \<Rightarrow> Inl e
             | Inr d \<Rightarrow> py_get d ''id'' PNone))
      else Inr PNone)"

text \<open>\<^verbatim>\<open>except Exception\<close> turns every exception of the body, and of the request
  itself, into \<^verbatim>\<open>None\<close>.\<close>

definition create_result :: "http_result \<Rightarrow> pyval" where
  "create_result r =
     (case r of
        RequestException \<Rightarrow> PNone
      | Response status body \<Rightarrow>
          (case create_response status body of Inl e \<Rightarrow> PNone | Inr v \<Rightarrow> v))"

definition create_journal_entry :: "env \<Rightarrow> world \<Rightarrow> APIClient \<Rightarrow> entry_data \<Rightarrow> world \<times> pyval" where
  "create_journal_entry E w self entry =
     (case serve_create E w (token self) entry of (w', r) \<Rightarrow> (w', create_result r))"

definition post_result :: "http_result \<Rightarrow> bool" where
  "post_result r =
     (case r of RequestException \<Rightarrow> False | Response status body \<Rightarrow> status = 200)"

definition post_journal_entry :: "env \<Rightarrow> world \<Rightarrow> APIClient \<Rightarrow> pyval \<Rightarrow> world \<times> bool" where
  "post_journal_entry E w self entry_id =
     (case serve_post E w (token self) entry_id of (w', r) \<Rightarrow> (w', post_result r))"

section \<open>Test scenarios\<close>

definition ACCOUNTS_CASH :: string where "ACCOUNTS_CASH = ''1010''"
definition ACCOUNTS_CAPITAL :: string where "ACCOUNTS_CAPITAL = ''3100''"
definition ACCOUNTS_SALES_REVENUE :: string where "ACCOUNTS_SALES_REVENUE = ''4100''"
definition ACCOUNTS_COGS :: string where "ACCOUNTS_COGS = ''5100''"
definition ACCOUNTS_SALARY_EXPENSE :: string where "ACCOUNTS_SALARY_EXPENSE = ''6100''"

text \<open>How a scenario ends: \<open>Inl\<close> when an exception leaves it (with the state at that
  moment), \<open>Inr\<close> when it returns its pair (outcome, entry identifier). The test
  \<^verbatim>\<open>not cash_id or not capital_id\<close> holds of an identifier that is None or 0. A scenario is a
  method of \<^verbatim>\<open>Phase36Tester\<close>; its \<^verbatim>\<open>self\<close> is the API client, the persisted state
  behind the connection, and the results so far.\<close>

type_synonym scenario_outcome =
  "(py_error \<times> world \<times> TestResults) + (world \<times> TestResults \<times> pyval \<times> pyval)"

definition scenario_1_entry :: "env \<Rightarrow> int \<Rightarrow> int \<Rightarrow> entry_data" where
  "scenario_1_entry E cash_id capital_id =
     \<lparr>e_entry_type = ''journal'', e_entry_date = TEST_DATE E, e_posting_date = TEST_DATE E,
      e_description = ''Scenario 1: Initial Capital'',
      e_details =
        [\<lparr>l_account_id = cash_id, l_debit_amount = 100000, l_credit_amount = 0,
          l_description = ''Received initial capital''\<rparr>,
         \<lparr>l_account_id = capital_id, l_debit_amount = 0, l_credit_amount = 100000,
          l_description = ''Initial capital contribution''\<rparr>]\<rparr>"

definition scenario_1_balanced_entry :: "env \<Rightarrow> APIClient \<Rightarrow> world \<Rightarrow> TestResults \<Rightarrow> scenario_outcome" where
  "scenario_1_balanced_entry E api w results =
     (let name = ''Scenario 1: Basic Balanced Entry''; now = clock E (length (tests results)) in
      case get_account_id w ACCOUNTS_CASH TEST_COMPANY_ID of
        Inl e \<Rightarrow> Inl (e, w, results)
      | Inr cash \<Rightarrow>
      (case get_account_id w ACCOUNTS_CAPITAL TEST_COMPANY_ID of
        Inl e \<Rightarrow> Inl (e, w, results)
      | Inr capital \<Rightarrow>
      (case (cash, capital) of
        (Some cash_id, Some capital_id) \<Rightarrow>
          if cash_id = 0 \<or> capital_id = 0 then
            Inr (w, add_test results name (PBool False) (Msg ''Account IDs not found'') PNone now,
                 PBool False, PNone)
          else
            (case create_journal_entry E w api (scenario_1_entry E cash_id capital_id) of
              (w1, entry_id) \<Rightarrow>
              if \<not> truthy entry_id then
                Inr (w1, add_test results name (PBool False) (Msg ''Failed to create entry'')
                           PNone now,
                     PBool False, PNone)
              else
                (case post_journal_entry E w1 api entry_id of
                  (w2, posted) \<Rightarrow>
                  if \<not> posted then
                    Inr (w2, add_test results name (PBool False) (Msg ''Failed to post entry'')
                               PNone now,
                         PBool False, entry_id)
                  else
                    (case get_trial_balance w2 TEST_COMPANY_ID of
                      Inl e \<Rightarrow> Inl (e, w2, results)
                    | Inr tb \<Rightarrow>
                      (let total_debit = float_sum E (map (\<lambda>(a, acc). row_debit acc) tb);
                           total_credit = float_sum E (map (\<lambda>(a, acc). row_credit acc) tb);
                           is_balanced = flt (fabs (fsub total_debit total_credit)) (py_float (1 / 100))
                       in Inr (w2, add_test results name (PBool is_balanced)
                                     (Fmt ''Debit: {:,.2f} | Credit: {:,.2f}''
                                        [total_debit, total_credit]) entry_id now,
                               PBool is_balanced, entry_id)))))
      | _ \<Rightarrow>
          Inr (w, add_test results name (PBool False) (Msg ''Account IDs not found'') PNone now,
               PBool False, PNone))))"

definition scenario_2_entry :: "env \<Rightarrow> int \<Rightarrow> int \<Rightarrow> entry_data" where
  "scenario_2_entry E cash_id capital_id =
     \<lparr>e_entry_type = ''journal'', e_entry_date = TEST_DATE E, e_posting_date = TEST_DATE E,
      e_description = ''Scenario 2: Unbalanced Entry'',
      e_details =
        [\<lparr>l_account_id = cash_id, l_debit_amount = 1000, l_credit_amount = 0,
          l_description = ''Unbalanced debit''\<rparr>,
         \<lparr>l_account_id = capital_id, l_debit_amount = 0, l_credit_amount = 500,
          l_description = ''Only partial credit''\<rparr>]\<rparr>"

definition scenario_2_unbalanced_entry :: "env \<Rightarrow> APIClient \<Rightarrow> world \<Rightarrow> TestResults \<Rightarrow> scenario_outcome" where
  "scenario_2_unbalanced_entry E api w results =
     (let name = ''Scenario 2: Unbalanced Entry Rejection'';
          now = clock E (length (tests results)) in
      case get_account_id w ACCOUNTS_CASH TEST_COMPANY_ID of
        Inl e \<Rightarrow> Inl (e, w, results)
      | Inr cash \<Rightarrow>
      (case get_account_id w ACCOUNTS_CAPITAL TEST_COMPANY_ID of
        Inl e \<Rightarrow> Inl (e, w, results)
      | Inr capital \<Rightarrow>
      (case (cash, capital) of
        (Some cash_id, Some capital_id) \<Rightarrow>
          if cash_id = 0 \<or> capital_id = 0 then
            Inr (w, add_test results name (PBool False) (Msg ''Account IDs not found'') PNone now,
                 PBool False, PNone)
          else
            (case create_journal_entry E w api (scenario_2_entry E cash_id capital_id) of
              (w1, entry_id) \<Rightarrow>
              (let test_passed = (entry_id = PNone) in
               Inr (w1, add_test results name (PBool test_passed)
                          (if test_passed then Msg ''System correctly rejected unbalanced entry''
                           else Msg ''System incorrectly accepted unbalanced entry'')
                          entry_id now,
                    PBool test_passed, entry_id)))
      | _ \<Rightarrow>
          Inr (w, add_test results name (PBool False) (Msg ''Account IDs not found'') PNone now,
               PBool False, PNone))))"

definition scenario_3_entry :: "env \<Rightarrow> int \<Rightarrow> int \<Rightarrow> entry_data" where
  "scenario_3_entry E cash_id revenue_id =
     \<lparr>e_entry_type = ''journal'', e_entry_date = TEST_DATE E, e_posting_date = TEST_DATE E,
      e_description = ''Scenario 3: Sales Revenue'',
      e_details =
        [\<lparr>l_account_id = cash_id, l_debit_amount = 50000, l_credit_amount = 0,
          l_description = ''Cash received from sales''\<rparr>,
         \<lparr>l_account_id = revenue_id, l_debit_amount = 0, l_credit_amount = 50000,
          l_description = ''Revenue from sales''\<rparr>]\<rparr>"

definition scenario_3_revenue_transaction :: "env \<Rightarrow> APIClient \<Rightarrow> world \<Rightarrow> TestResults \<Rightarrow> scenario_outcome" where
  "scenario_3_revenue_transaction E api w results =
     (let name = ''Scenario 3: Revenue Transaction''; now = clock E (length (tests results)) in
      case get_account_id w ACCOUNTS_CASH TEST_COMPANY_ID of
        Inl e \<Rightarrow> Inl (e, w, results)
      | Inr cash \<Rightarrow>
      (case get_account_id w ACCOUNTS_SALES_REVENUE TEST_COMPANY_ID of
        Inl e \<Rightarrow> Inl (e, w, results)
      | Inr other \<Rightarrow>
      (case (cash, other) of
        (Some cash_id, Some revenue_id) \<Rightarrow>
          if cash_id = 0 \<or> revenue_id = 0 then
            Inr (w, add_test results name (PBool False) (Msg ''Account IDs not found'') PNone now,
                 PBool False, PNone)
          else
            (case create_journal_entry E w api (scenario_3_entry E cash_id revenue_id) of
              (w1, entry_id) \<Rightarrow>
              if \<not> truthy entry_id then
                Inr (w1, add_test results name (PBool False)
                           (Msg ''Failed to create/post entry'') PNone now,
                     PBool False, entry_id)
              else
                (case post_journal_entry E w1 api entry_id of
                  (w2, posted) \<Rightarrow>
                  if \<not> posted then
                    Inr (w2, add_test results name (PBool False)
                               (Msg ''Failed to create/post entry'') PNone now,
                         PBool False, entry_id)
                  else
                    (case get_trial_balance w2 TEST_COMPANY_ID of
                      Inl e \<Rightarrow> Inl (e, w2, results)
                    | Inr tb \<Rightarrow>
                      (case map_of tb revenue_id of
                        None \<Rightarrow>
                          Inr (w2, add_test results name PNone
                                     (Fmt ''Revenue Credit: {:,.2f}'' [Finite 0]) entry_id now,
                               PNone, entry_id)
                      | Some row \<Rightarrow>
                          (let test_passed =
                                 PBool (flt (fabs (fsub (row_credit row) (py_float 50000)))
                                          (py_float (1 / 100))) in
                           Inr (w2, add_test results name test_passed
                                      (Fmt ''Revenue Credit: {:,.2f}'' [row_credit row]) entry_id now,
                                test_passed, entry_id))))))
      | _ \<Rightarrow>
          Inr (w, add_test results name (PBool False) (Msg ''Account IDs not found'') PNone now,
               PBool False, PNone))))"

definition scenario_4_entry :: "env \<Rightarrow> int \<Rightarrow> int \<Rightarrow> entry_data" where
  "scenario_4_entry E cash_id salary_id =
     \<lparr>e_entry_type = ''journal'', e_entry_date = TEST_DATE E, e_posting_date = TEST_DATE E,
      e_description = ''Scenario 4: Salary Expense'',
      e_details =
        [\<lparr>l_account_id = salary_id, l_debit_amount = 20000, l_credit_amount = 0,
          l_description = ''Monthly salary expense''\<rparr>,
         \<lparr>l_account_id = cash_id, l_debit_amount = 0, l_credit_amount = 20000,
          l_description = ''Cash paid for salaries''\<rparr>]\<rparr>"

definition scenario_4_expense_transaction :: "env \<Rightarrow> APIClient \<Rightarrow> world \<Rightarrow> TestResults \<Rightarrow> scenario_outcome" where
  "scenario_4_expense_transaction E api w results =
     (let name = ''Scenario 4: Expense Transaction''; now = clock E (length (tests results)) in
      case get_account_id w ACCOUNTS_CASH TEST_COMPANY_ID of
        Inl e \<Rightarrow> Inl (e, w, results)
      | Inr cash \<Rightarrow>
      (case get_account_id w ACCOUNTS_SALARY_EXPENSE TEST_COMPANY_ID of
        Inl e \<Rightarrow> Inl (e, w, results)
      | Inr other \<Rightarrow>
      (case (cash, other) of
        (Some cash_id, Some salary_id) \<Rightarrow>
          if cash_id = 0 \<or> salary_id = 0 then
            Inr (w, add_test results name (PBool False) (Msg ''Account IDs not found'') PNone now,
                 PBool False, PNone)
          else
            (case create_journal_entry E w api (scenario_4_entry E cash_id salary_id) of
              (w1, entry_id) \<Rightarrow>
              if \<not> truthy entry_id then
                Inr (w1, add_test results name (PBool False)
                           (Msg ''Failed to create/post entry'') PNone now,
                     PBool False, entry_id)
              else
                (case post_journal_entry E w1 api entry_id of
                  (w2, posted) \<Rightarrow>
                  if \<not> posted then
                    Inr (w2, add_test results name (PBool False)
                               (Msg ''Failed to create/post entry'') PNone now,
                         PBool False, entry_id)
                  else
                    (case get_trial_balance w2 TEST_COMPANY_ID of
                      Inl e \<Rightarrow> Inl (e, w2, results)
                    | Inr tb \<Rightarrow>
                      (case map_of tb salary_id of
                        None \<Rightarrow>
                          Inr (w2, add_test results name PNone
                                     (Fmt ''Salary Expense Debit: {:,.2f}'' [Finite 0]) entry_id now,
                               PNone, entry_id)
                      | Some row \<Rightarrow>
                          (let test_passed =
                                 PBool (flt (fabs (fsub (row_debit row) (py_float 20000)))
                                          (py_float (1 / 100))) in
                           Inr (w2, add_test results name test_passed
                                      (Fmt ''Salary Expense Debit: {:,.2f}'' [row_debit row]) entry_id now,
                                test_passed, entry_id))))))
      | _ \<Rightarrow>
          Inr (w, add_test results name (PBool False) (Msg ''Account IDs not found'') PNone now,
               PBool False, PNone))))"

definition scenario_5_entry :: "env \<Rightarrow> int \<Rightarrow> int \<Rightarrow> entry_data" where
  "scenario_5_entry E cash_id cogs_id =
     \<lparr>e_entry_type = ''journal'', e_entry_date = TEST_DATE E, e_posting_date = TEST_DATE E,
      e_description = ''Scenario 5: COGS Purchase'',
      e_details =
        [\<lparr>l_account_id = cogs_id, l_debit_amount = 30000, l_credit_amount = 0,
          l_description = ''Cost of goods sold''\<rparr>,
         \<lparr>l_account_id = cash_id, l_debit_amount = 0, l_credit_amount = 30000,
          l_description = ''Cash paid for inventory''\<rparr>]\<rparr>"

definition scenario_5_cogs_transaction :: "env \<Rightarrow> APIClient \<Rightarrow> world \<Rightarrow> TestResults \<Rightarrow> scenario_outcome" where
  "scenario_5_cogs_transaction E api w results =
     (let name = ''Scenario 5: COGS Transaction''; now = clock E (length (tests results)) in
      case get_account_id w ACCOUNTS_CASH TEST_COMPANY_ID of
        Inl e \<Rightarrow> Inl (e, w, results)
      | Inr cash \<Rightarrow>
      (case get_account_id w ACCOUNTS_COGS TEST_COMPANY_ID of
        Inl e \<Rightarrow> Inl (e, w, results)
      | Inr other \<Rightarrow>
      (case (cash, other) of
        (Some cash_id, Some cogs_id) \<Rightarrow>
          if cash_id = 0 \<or> cogs_id = 0 then
            Inr (w, add_test results name (PBool False) (Msg ''Account IDs not found'') PNone now,
                 PBool False, PNone)
          else
            (case create_journal_entry E w api (scenario_5_entry E cash_id cogs_id) of
              (w1, entry_id) \<Rightarrow>
              if \<not> truthy entry_id then
                Inr (w1, add_test results name (PBool False)
                           (Msg ''Failed to create/post entry'') PNone now,
                     PBool False, entry_id)
              else
                (case post_journal_entry E w1 api entry_id of
                  (w2, posted) \<Rightarrow>
                  if \<not> posted then
                    Inr (w2, add_test results name (PBool False)
                               (Msg ''Failed to create/post entry'') PNone now,
                         PBool False, entry_id)
                  else
                    (case get_trial_balance w2 TEST_COMPANY_ID of
                      Inl e \<Rightarrow> Inl (e, w2, results)
                    | Inr tb \<Rightarrow>
                      (case map_of tb cogs_id of
                        None \<Rightarrow>
                          Inr (w2, add_test results name PNone
                                     (Fmt ''COGS Debit: {:,.2f}'' [Finite 0]) entry_id now,
                               PNone, entry_id)
                      | Some row \<Rightarrow>
                          (let test_passed =
                                 PBool (flt (fabs (fsub (row_debit row) (py_float 30000)))
                                          (py_float (1 / 100))) in
                           Inr (w2, add_test results name test_passed
                                      (Fmt ''COGS Debit: {:,.2f}'' [row_debit row]) entry_id now,
                                test_passed, entry_id))))))
      | _ \<Rightarrow>
          Inr (w, add_test results name (PBool False) (Msg ''Account IDs not found'') PNone now,
               PBool False, PNone))))"

definition cross_validation_trial_balance ::
  "env \<Rightarrow> world \<Rightarrow> TestResults \<Rightarrow> (py_error \<times> world \<times> TestResults) + (world \<times> TestResults)" where
  "cross_validation_trial_balance E w results =
     (case get_trial_balance w TEST_COMPANY_ID of
        Inl e \<Rightarrow> Inl (e, w, results)
      | Inr tb \<Rightarrow>
         (let total_debit = float_sum E (map (\<lambda>(a, acc). row_debit acc) tb);
              total_credit = float_sum E (map (\<lambda>(a, acc). row_credit acc) tb);
              is_balanced = flt (fabs (fsub total_debit total_credit)) (py_float (1 / 100))
          in Inr (w, add_test results ''Cross-Validation: TB = GL'' (PBool is_balanced)
                       (Fmt ''Difference: {:,.2f}'' [fabs (fsub total_debit total_credit)]) PNone
                       (clock E (length (tests results))))))"

text \<open>\<^verbatim>\<open>run_all_scenarios\<close>: the five scenarios in order (their return values are
  dropped), the cross-validation, the summary, and \<^verbatim>\<open>self.results.failed == 0\<close>.\<close>

definition run_all_scenarios ::
  "env \<Rightarrow> APIClient \<Rightarrow> world \<Rightarrow> TestResults
     \<Rightarrow> (py_error \<times> world \<times> TestResults) + (world \<times> TestResults \<times> out_line list \<times> bool)" where
  "run_all_scenarios E api w results =
     (case scenario_1_balanced_entry E api w results of
        Inl x \<Rightarrow> Inl x
      | Inr (w1, r1, ret1) \<Rightarrow>
     (case scenario_2_unbalanced_entry E api w1 r1 of
        Inl x \<Rightarrow> Inl x
      | Inr (w2, r2, ret2) \<Rightarrow>
     (case scenario_3_revenue_transaction E api w2 r2 of
        Inl x \<Rightarrow> Inl x
      | Inr (w3, r3, ret3) \<Rightarrow>
     (case scenario_4_expense_transaction E api w3 r3 of
        Inl x \<Rightarrow> Inl x
      | Inr (w4, r4, ret4) \<Rightarrow>
     (case scenario_5_cogs_transaction E api w4 r4 of
        Inl x \<Rightarrow> Inl x
      | Inr (w5, r5, ret5) \<Rightarrow>
     (case cross_validation_trial_balance E w5 r5 of
        Inl x \<Rightarrow> Inl x
      | Inr (w6, r6) \<Rightarrow>
     (case print_summary r6 of
        (out, Inl e) \<Rightarrow> Inl (e, w6, r6)
      | (out, Inr u) \<Rightarrow> Inr (w6, r6, out, failed r6 = 0))))))))"

section \<open>Main execution\<close>

text \<open>The results file: what \<^verbatim>\<open>open(results_file, 'w')\<close> leaves (an empty file), and
  what \<^verbatim>\<open>json.dump\<close> of a value leaves.\<close>

datatype document = EmptyFile | JsonDocument pyval

text \<open>\<^verbatim>\<open>t.__dict__\<close> for an element of \<^verbatim>\<open>tester.results.tests\<close>. Every element is the
  dict that \<^verbatim>\<open>add_test\<close> built from a dict display, and an instance of \<^verbatim>\<open>dict\<close> has
  no attribute \<^verbatim>\<open>__dict__\<close>: the access raises.\<close>

definition dunder_dict :: "test_rec \<Rightarrow> py_error + pyval" where
  "dunder_dict t = Inl AttributeError"

text \<open>A list comprehension \<^verbatim>\<open>[f(t) for t in xs]\<close>: the first exception ends it.\<close>

fun comprehension :: "('a \<Rightarrow> py_error + 'b) \<Rightarrow> 'a list \<Rightarrow> py_error + 'b list" where
  "comprehension f [] = Inr []"
| "comprehension f (x # xs) =
     (case f x of
        Inl e \<Rightarrow> Inl e
      | Inr y \<Rightarrow> (case comprehension f xs of Inl e \<Rightarrow> Inl e | Inr ys \<Rightarrow> Inr (y # ys)))"

definition SUPER_ADMIN_EMAIL :: string where
  "SUPER_ADMIN_EMAIL = ''super_admin@slms.local''"

definition SUPER_ADMIN_PASSWORD :: string where
  "SUPER_ADMIN_PASSWORD = ''SuperAdmin@123''"

text \<open>A run of the script: the status the process exits with, the persisted state and the
  recorded results when it ends, and the results file.\<close>

record run =
  exit_code :: int
  end_world :: world
  end_results :: TestResults
  results_file :: "document option"

text \<open>\<^verbatim>\<open>sys.exit(0 if success else 1)\<close> after \<^verbatim>\<open>main\<close> has returned \<open>success\<close>.\<close>

definition finish :: "bool \<Rightarrow> world \<Rightarrow> TestResults \<Rightarrow> document option \<Rightarrow> run" where
  "finish success w results file =
     \<lparr>exit_code = (if success then 0 else 1), end_world = w, end_results = results,
      results_file = file\<rparr>"

text \<open>\<^verbatim>\<open>main\<close> and the lines under \<^verbatim>\<open>__main__\<close>; \<open>file\<close> is the results file before
  the run. Every \<open>Inl\<close> below the connection is caught by \<^verbatim>\<open>except Exception\<close>, which
  returns False.\<close>

definition main :: "env \<Rightarrow> world \<Rightarrow> document option \<Rightarrow> run" where
  "main E w file =
     (case connect_db w of
        Inl code \<Rightarrow>
          \<lparr>exit_code = code, end_world = w, end_results = TestResults_init,
           results_file = file\<rparr>
      | Inr conn \<Rightarrow>
         (case login E w APIClient_init SUPER_ADMIN_EMAIL SUPER_ADMIN_PASSWORD of
            (w0, api, logged_in) \<Rightarrow>
              if \<not> logged_in then finish False w0 TestResults_init file
              else
                (case run_all_scenarios E api w0 TestResults_init of
                   Inl (e, w1, results) \<Rightarrow> finish False w1 results file
                 | Inr (w1, results, out, success) \<Rightarrow>
                     if \<not> file_writable E then finish False w1 results file
                     else
                       (case comprehension dunder_dict (tests results) of
                          Inl e \<Rightarrow> finish False w1 results (Some EmptyFile)
                        | Inr ds \<Rightarrow>
                            finish success w1 results (Some (JsonDocument (PList ds)))))))"

section \<open>The words of the specification\<close>

text \<open>The predicate of the specification's InvariantChecker, as the specification words
  it, \<open>|a - b| < epsilon\<close> on floats; the harness has no such function, each comparison
  is written out where it is made.\<close>

definition withinTolerance :: "pyfloat \<Rightarrow> pyfloat \<Rightarrow> pyfloat \<Rightarrow> bool" where
  "withinTolerance a b epsilon = flt (fabs (fsub a b)) epsilon"

text \<open>A status code of the 2xx class.\<close>

definition is_2xx :: "nat \<Rightarrow> bool" where
  "is_2xx status = (200 \<le> status \<and> status < 300)"

text \<open>The identifier in a well-formed body \<^verbatim>\<open>{data: {id}}\<close>, if the body is one.\<close>

fun body_id :: "pyval option \<Rightarrow> pyval option" where
  "body_id (Some (PDict kvs)) =
     (case map_of (rev kvs) ''data'' of
        Some (PDict d) \<Rightarrow> map_of (rev d) ''id''
      | _ \<Rightarrow> None)"
| "body_id _ = None"

text \<open>A detail line of the tenant that belongs to a posted, non-deleted entry of the
  tenant.\<close>

definition on_posted_entry :: "world \<Rightarrow> int \<Rightarrow> jed_row \<Rightarrow> bool" where
  "on_posted_entry w company_id l =
     (jed_company_id l = company_id \<and>
      list_ex (\<lambda>e. je_id e = jed_journal_entry_id l \<and> je_company_id e = company_id
                   \<and> je_status e = ''posted'' \<and> je_deleted_at e = None) (journal_entries w))"

text \<open>The lines of an account that count as posted: the tenant's lines on that account
  that belong to a posted, non-deleted entry of the tenant.\<close>

definition posted_lines :: "world \<Rightarrow> int \<Rightarrow> int \<Rightarrow> jed_row list" where
  "posted_lines w company_id a =
     filter (\<lambda>l. on_posted_entry w company_id l \<and> jed_account_id l = a)
       (journal_entry_details w)"

text \<open>A detail line that is itself soft-deleted: its row carries a \<^verbatim>\<open>deleted_at\<close> that
  is not NULL.\<close>

definition line_soft_deleted :: "jed_row \<Rightarrow> bool" where
  "line_soft_deleted l =
     (case map_of (jed_other l) ''deleted_at'' of None \<Rightarrow> False | Some v \<Rightarrow> v \<noteq> PNone)"

text \<open>The keys the trial balance would have if soft-deleted lines contributed nothing.\<close>

definition tb_keys_without_deleted_lines :: "world \<Rightarrow> int \<Rightarrow> int list" where
  "tb_keys_without_deleted_lines w company_id =
     remdups (map jed_account_id
       (filter (\<lambda>l. \<not> line_soft_deleted l \<and> on_posted_entry w company_id l)
          (journal_entry_details w)))"

text \<open>Modelled from the spec: the ledger's handler of \<^verbatim>\<open>POST /journals\<close>, which is not
  part of the harness. An entry is created unposted and becomes posted only through
  \<^verbatim>\<open>postEntry\<close>: going from \<open>w\<close> to \<open>w'\<close>, creation keeps every row there is, adds
  no posted entry, and attaches the lines it adds to no entry that was there before.\<close>

definition only_staged :: "world \<Rightarrow> world \<Rightarrow> bool" where
  "only_staged w w' =
     (let n = length (journal_entries w); m = length (journal_entry_details w) in
      take n (journal_entries w') = journal_entries w
      \<and> take m (journal_entry_details w') = journal_entry_details w
      \<and> list_all (\<lambda>e. je_status e \<noteq> ''posted'') (drop n (journal_entries w'))
      \<and> list_all (\<lambda>l. jed_journal_entry_id l \<notin> set (map je_id (journal_entries w)))
           (drop m (journal_entry_details w')))"

text \<open>The state a scenario leaves behind, however it ends.\<close>

definition world_after :: "scenario_outcome \<Rightarrow> world" where
  "world_after r = (case r of Inl (e, w, res) \<Rightarrow> w | Inr (w, res, ret) \<Rightarrow> w)"

text \<open>An account code resolves to the identifier \<open>i\<close>: the lookup returns it, and the
  scenario's test \<^verbatim>\<open>not account_id\<close> lets it through.\<close>

definition resolves :: "world \<Rightarrow> string \<Rightarrow> int \<Rightarrow> bool" where
  "resolves w code i = (get_account_id w code TEST_COMPANY_ID = Inr (Some i) \<and> i \<noteq> 0)"


text \<open>The steps between BUILD and VERIFY of a scenario that expects success: the entry
  is created (the identifier returned is true), posted, and the trial balance is read.
  When all three succeed: the state, the identifier and the trial balance that the
  verification works on.\<close>

definition created_and_posted ::
  "env \<Rightarrow> APIClient \<Rightarrow> world \<Rightarrow> entry_data \<Rightarrow> (world \<times> pyval \<times> (int \<times> tb_row) list) option" where
  "created_and_posted E api w entry =
     (case create_journal_entry E w api entry of
        (w1, entry_id) \<Rightarrow>
          if truthy entry_id then
            (case post_journal_entry E w1 api entry_id of
               (w2, posted) \<Rightarrow>
                 if posted then
                   (case get_trial_balance w2 TEST_COMPANY_ID of
                      Inl e \<Rightarrow> None
                    | Inr tb \<Rightarrow> Some (w2, entry_id, tb))
                 else None)
          else None)"

text \<open>The global totals of a trial balance, as the interpreter sums them.\<close>

definition total_debit :: "env \<Rightarrow> (int \<times> tb_row) list \<Rightarrow> pyfloat" where
  "total_debit E tb = float_sum E (map (\<lambda>(a, acc). row_debit acc) tb)"

definition total_credit :: "env \<Rightarrow> (int \<times> tb_row) list \<Rightarrow> pyfloat" where
  "total_credit E tb = float_sum E (map (\<lambda>(a, acc). row_credit acc) tb)"







section \<open>A ledger to run against\<close>

text \<open>Concrete inputs for the runs evaluated below: a tenant with the five accounts the
  scenarios name and empty books, and a small ledger under an interpreter that sums from
  left to right. The ledger refuses an entry whose
  debits and credits differ (status 400), stores any other entry as a draft with its lines
  and answers 201 with the new identifier, and posts the entry named in a post request.\<close>

definition demo_accounts :: "coa_row list" where
  "demo_accounts =
     [\<lparr>coa_id = 1, coa_account_code = ''1010'', coa_company_id = 1, coa_deleted_at = None\<rparr>,
      \<lparr>coa_id = 2, coa_account_code = ''3100'', coa_company_id = 1, coa_deleted_at = None\<rparr>,
      \<lparr>coa_id = 3, coa_account_code = ''4100'', coa_company_id = 1, coa_deleted_at = None\<rparr>,
      \<lparr>coa_id = 4, coa_account_code = ''6100'', coa_company_id = 1, coa_deleted_at = None\<rparr>,
      \<lparr>coa_id = 5, coa_account_code = ''5100'', coa_company_id = 1, coa_deleted_at = None\<rparr>]"

definition demo_world :: world where
  "demo_world =
     \<lparr>db_reachable = True, db_query_ok = True, chart_of_accounts = demo_accounts,
      journal_entries = [], journal_entry_details = []\<rparr>"

definition demo_line :: "int \<Rightarrow> line_data \<Rightarrow> jed_row" where
  "demo_line entry_id l =
     \<lparr>jed_company_id = 1, jed_journal_entry_id = entry_id, jed_account_id = l_account_id l,
      jed_debit_amount = l_debit_amount l, jed_credit_amount = l_credit_amount l,
      jed_other = []\<rparr>"

definition demo_store :: "world \<Rightarrow> entry_data \<Rightarrow> world \<times> http_result" where
  "demo_store w e =
     (let new_id = 1 + int (length (journal_entries w)) in
      (w\<lparr>journal_entries := journal_entries w @
            [\<lparr>je_id = new_id, je_company_id = 1, je_status = ''draft'', je_deleted_at = None\<rparr>],
         journal_entry_details := journal_entry_details w @ map (demo_line new_id) (e_details e)\<rparr>,
       Response 201 (Some (PDict [(''data'', PDict [(''id'', PNum (of_int new_id))])]))))"

definition demo_create :: "world \<Rightarrow> pyval \<Rightarrow> entry_data \<Rightarrow> world \<times> http_result" where
  "demo_create w tok e =
     (if sum_list (map l_debit_amount (e_details e)) \<noteq> sum_list (map l_credit_amount (e_details e))
      then (w, Response 400 (Some (PDict [(''error'', PStr ''unbalanced'')])))
      else demo_store w e)"

definition demo_post :: "world \<Rightarrow> pyval \<Rightarrow> pyval \<Rightarrow> world \<times> http_result" where
  "demo_post w tok entry_id =
     (w\<lparr>journal_entries :=
          map (\<lambda>e. if PNum (of_int (je_id e)) = entry_id then e\<lparr>je_status := ''posted''\<rparr> else e)
            (journal_entries w)\<rparr>,
      Response 200 None)"

definition demo_login :: "world \<Rightarrow> string \<Rightarrow> string \<Rightarrow> world \<times> http_result" where
  "demo_login w email password =
     (w, Response 200 (Some (PDict [(''data'',
            PDict [(''accessToken'', PStr ''t''), (''user'', PDict [(''id'', PNum 1)])])])))"

definition demo_env :: env where
  "demo_env =
     \<lparr>TEST_DATE = ''2026-01-01'', clock = (\<lambda>n. ''2026-01-01T00:00:00''), file_writable = True,
      float_sum = sum_left, serve_login = demo_login, serve_create = demo_create, serve_post = demo_post\<rparr>"

text \<open>Books with one posted entry (1), a draft (2), a posted entry that is deleted (3)
  and a posted entry of another tenant (4). Entry 1 has a line on account 7, a line on
  account 8, and a line on account 9 that is itself soft-deleted.\<close>

definition books_line :: "int \<Rightarrow> int \<Rightarrow> int \<Rightarrow> rat \<Rightarrow> rat \<Rightarrow> (string \<times> pyval) list \<Rightarrow> jed_row" where
  "books_line company entry account debit credit other =
     \<lparr>jed_company_id = company, jed_journal_entry_id = entry, jed_account_id = account,
      jed_debit_amount = debit, jed_credit_amount = credit, jed_other = other\<rparr>"

definition books_world :: world where
  "books_world =
     \<lparr>db_reachable = True, db_query_ok = True, chart_of_accounts = [],
      journal_entries =
        [\<lparr>je_id = 1, je_company_id = 1, je_status = ''posted'', je_deleted_at = None\<rparr>,
         \<lparr>je_id = 2, je_company_id = 1, je_status = ''draft'', je_deleted_at = None\<rparr>,
         \<lparr>je_id = 3, je_company_id = 1, je_status = ''posted'',
           je_deleted_at = Some ''2026-01-02''\<rparr>,
         \<lparr>je_id = 4, je_company_id = 2, je_status = ''posted'', je_deleted_at = None\<rparr>],
      journal_entry_details =
        [books_line 1 1 7 100 0 [],
         books_line 1 1 8 0 100 [],
         books_line 1 1 9 40 0 [(''deleted_at'', PStr ''2026-01-03'')],
         books_line 1 2 7 5 0 [],
         books_line 1 3 7 6 0 [],
         books_line 2 4 7 8 0 []]\<rparr>"

text \<open>The tenant of \<open>demo_world\<close> once a first entry, debit cash 100000 against
  capital, is posted.\<close>

definition funded_world :: world where
  "funded_world =
     demo_world\<lparr>journal_entries :=
         [\<lparr>je_id = 1, je_company_id = 1, je_status = ''posted'', je_deleted_at = None\<rparr>],
       journal_entry_details := [books_line 1 1 1 100000 0 [], books_line 1 1 2 0 100000 []]\<rparr>"


text \<open>The tenant of \<open>demo_world\<close> after an earlier sale: a posted entry, debit cash
  50000 against sales revenue.\<close>

definition sold_world :: world where
  "sold_world =
     demo_world\<lparr>journal_entries :=
         [\<lparr>je_id = 1, je_company_id = 1, je_status = ''posted'', je_deleted_at = None\<rparr>],
       journal_entry_details := [books_line 1 1 1 50000 0 [], books_line 1 1 3 0 50000 []]\<rparr>"

text \<open>Books that are out of balance by a half: one posted line, debit 1/2.\<close>

definition half_world :: world where
  "half_world =
     demo_world\<lparr>journal_entries :=
         [\<lparr>je_id = 1, je_company_id = 1, je_status = ''posted'', je_deleted_at = None\<rparr>],
       journal_entry_details := [books_line 1 1 1 (1 / 2) 0 []]\<rparr>"

text \<open>The tenant of \<open>demo_world\<close> with posted entries: each element of the list is a
  line (entry, account, debit, credit), and every entry named is posted.\<close>

definition demo_books :: "(int \<times> int \<times> rat \<times> rat) list \<Rightarrow> world" where
  "demo_books ls =
     demo_world\<lparr>journal_entries :=
         map (\<lambda>i. \<lparr>je_id = i, je_company_id = 1, je_status = ''posted'', je_deleted_at = None\<rparr>)
           (remdups (map fst ls)),
       journal_entry_details := map (\<lambda>(e, a, d, c). books_line 1 e a d c []) ls\<rparr>"

text \<open>The same ledger without the balance check: it stores every entry as a draft.\<close>

definition lenient_env :: env where
  "lenient_env = demo_env\<lparr>serve_create := (\<lambda>w tok e. demo_store w e)\<rparr>"

definition demo_api :: APIClient where
  "demo_api = \<lparr>token = PStr ''t'', user_id = PNum 1\<rparr>"

text \<open>A ledger that posts every entry as it creates it: the entry is stored and at once
  marked posted.\<close>

definition eager_create :: "world \<Rightarrow> pyval \<Rightarrow> entry_data \<Rightarrow> world \<times> http_result" where
  "eager_create w tok e =
     (case demo_store w e of
        (w1, r) \<Rightarrow>
          (fst (demo_post w1 tok (PNum (of_int (1 + int (length (journal_entries w)))))), r))"

definition eager_env :: env where
  "eager_env = demo_env\<lparr>serve_create := eager_create\<rparr>"

text \<open>Books that are out of balance by one cent: a posted entry, debit cash 100000.01
  against capital 100000.\<close>

definition cent_world :: world where
  "cent_world =
     demo_world\<lparr>journal_entries :=
         [\<lparr>je_id = 1, je_company_id = 1, je_status = ''posted'', je_deleted_at = None\<rparr>],
       journal_entry_details :=
         [books_line 1 1 1 (10000001 / 100) 0 [], books_line 1 1 2 0 100000 []]\<rparr>"

section \<open>Floats that are exact\<close>

lemma bit_length_bounds:
  "0 < n \<Longrightarrow> 1 \<le> bit_length n \<and> 2 ^ nat (bit_length n - 1) \<le> n \<and> n < 2 ^ nat (bit_length n)"
proof (induction n rule: bit_length.induct)
  case (1 n)
  show ?case
  proof (cases "n div 2 = 0")
    case True
    with "1.prems" have n: "n = 1" by presburger
    have "bit_length 1 = 1"
      by (simp add: bit_length.simps [of 1] bit_length.simps [of 0])
    with n show ?thesis by simp
  next
    case False
    with "1.prems" have pos: "0 < n div 2" by presburger
    from "1.prems" have nle: "\<not> n \<le> 0" by simp
    let ?b = "bit_length (n div 2)"
    from "1.IH" [OF nle pos] have b: "1 \<le> ?b" "2 ^ nat (?b - 1) \<le> n div 2" "n div 2 < 2 ^ nat ?b"
      by simp_all
    have bl: "bit_length n = 1 + ?b"
      using "1.prems" by (subst bit_length.simps) simp
    from b(1) have e1: "nat (1 + ?b - 1) = Suc (nat (?b - 1))" and e2: "nat (1 + ?b) = Suc (nat ?b)"
      by linarith+
    have "2 * (n div 2) \<le> n" by presburger
    with b(2) have lo: "2 * 2 ^ nat (?b - 1) \<le> n" by linarith
    have "n \<le> 2 * (n div 2) + 1" by presburger
    with b(3) have hi: "n < 2 * 2 ^ nat ?b" by linarith
    from b(1) lo hi show ?thesis
      unfolding bl e1 e2 by simp
  qed
qed

lemma round_half_even_int: "round_half_even (of_int k) = k"
  by (simp add: round_half_even_def)

lemma py_float_nat:
  assumes "0 < n" and "n < 2 ^ 53"
  shows "py_float (of_int n) = Finite (of_int n)" and "py_float (- of_int n) = Finite (- of_int n)"
proof -
  let ?b = "bit_length n"
  from bit_length_bounds [OF assms(1)] have b: "1 \<le> ?b" "2 ^ nat (?b - 1) \<le> n" by simp_all
  have "?b \<le> 53"
  proof (rule ccontr)
    assume "\<not> ?b \<le> 53"
    then have "53 \<le> nat (?b - 1)" by linarith
    then have "(2 :: int) ^ 53 \<le> 2 ^ nat (?b - 1)"
      by (intro power_increasing) simp_all
    with b(2) assms(2) show False by linarith
  qed
  define k where "k = nat (53 - ?b)"
  have x1: "(1 :: rat) \<le> of_int n" using assms(1) by simp
  have il: "ilog2 (of_int n) = ?b - 1"
    using x1 by (simp add: ilog2_def)
  have e: "max (ilog2 (of_int n) - 52) (- 1074) = - int k"
    using b(1) \<open>?b \<le> 53\<close> by (simp add: il k_def)
  have p: "pow2 (- int k) = 1 / 2 ^ k"
    by (cases "k = 0") (simp_all add: pow2_def)
  have q: "(of_int n :: rat) / (1 / 2 ^ k) = of_int (n * 2 ^ k)"
    by simp
  have m: "round_half_even (of_int n / pow2 (- int k)) = n * 2 ^ k"
    unfolding p q by (rule round_half_even_int)
  have undo: "(of_int (n * 2 ^ k) :: rat) * pow2 (- int k) = of_int n"
    unfolding p by simp
  have ab: "\<bar>of_int n :: rat\<bar> = of_int n" "\<bar>- of_int n :: rat\<bar> = of_int n"
    using assms(1) by simp_all
  have nz: "(of_int n :: rat) \<noteq> 0" "(0 :: rat) < of_int n" "\<not> (0 :: rat) < - of_int n"
    "- (of_int n :: rat) \<noteq> 0"
    using assms(1) by simp_all
  have ov: "\<not> (971 < - int k \<or> (- int k = 971 \<and> 2 ^ 53 \<le> n * 2 ^ k))"
    by simp
  show "py_float (of_int n) = Finite (of_int n)"
    unfolding py_float_def ab e Let_def m undo using nz ov by simp
  show "py_float (- of_int n) = Finite (- of_int n)"
    unfolding py_float_def ab e Let_def m undo using nz ov by simp
qed

lemma py_float_int:
  assumes "x \<in> \<int>" and "\<bar>x\<bar> < 2 ^ 53"
  shows "py_float x = Finite x"
proof -
  from assms(1) obtain z where z: "x = of_int z" by (auto elim: Ints_cases)
  consider "z = 0" | "0 < z" | "z < 0" by linarith
  then show ?thesis
  proof cases
    case 1
    with z show ?thesis by (simp add: py_float_def)
  next
    case 2
    from assms(2) z 2 have "(of_int z :: rat) < of_int (2 ^ 53)" by simp
    then have "z < 2 ^ 53" by (simp only: of_int_less_iff)
    from py_float_nat(1) [OF 2 this] z show ?thesis by simp
  next
    case 3
    then have p: "0 < - z" by simp
    from assms(2) z 3 have "(of_int (- z) :: rat) < of_int (2 ^ 53)" by simp
    then have "- z < 2 ^ 53" by (simp only: of_int_less_iff)
    from py_float_nat(2) [OF p this] z show ?thesis by simp
  qed
qed

lemma py_float_hundredth: "py_float (1 / 100) = Finite (5764607523034235 / 576460752303423488)"
  by code_simp

lemma py_float_cent: "py_float (10000001 / 100) = Finite (6871948360794767 / 68719476736)"
  by code_simp

lemma py_float_cent_diff: "py_float (687194767 / 68719476736) = Finite (687194767 / 68719476736)"
  by code_simp

lemma py_float_cent_again:
  "py_float (6871948360794767 / 68719476736) = Finite (6871948360794767 / 68719476736)"
  by code_simp

lemma py_float_half: "py_float (1 / 2) = Finite (1 / 2)"
  by code_simp

lemma within_hundredth_int:
  assumes "x \<in> \<int>" and "\<bar>x\<bar> < 2 ^ 52" and "n \<in> \<int>" and "\<bar>n\<bar> < 2 ^ 52"
  shows "flt (fabs (fsub (py_float x) (py_float n))) (py_float (1 / 100)) \<longleftrightarrow> x = n"
proof -
  have x: "py_float x = Finite x"
    using assms(1,2) by (intro py_float_int) simp_all
  have n: "py_float n = Finite n"
    using assms(3,4) by (intro py_float_int) simp_all
  have d: "py_float (x - n) = Finite (x - n)"
    using assms by (intro py_float_int) simp_all
  from assms(1,3) have "x - n \<in> \<int>" by simp
  then obtain z where z: "x - n = of_int z" by (auto elim: Ints_cases)
  have "\<bar>x - n\<bar> < 5764607523034235 / 576460752303423488 \<longleftrightarrow> x - n = 0"
  proof (cases "z = 0")
    case True
    with z show ?thesis by simp
  next
    case False
    then have "1 \<le> \<bar>z\<bar>" by simp
    then have "(1 :: rat) \<le> \<bar>of_int z\<bar>"
      by (metis of_int_1 of_int_abs of_int_le_iff)
    with z False show ?thesis by simp
  qed
  then show ?thesis
    by (simp add: x n fsub_def d py_float_hundredth)
qed

lemmas cent_eval = py_float_cent py_float_cent_again py_float_cent_diff py_float_half

lemmas float_eval = row_debit_def row_credit_def fsub_def sum_left_def py_float_int
  py_float_hundredth

section \<open>The summary of an empty log\<close>

text \<open>C10: when the summary is rendered with no result recorded (passed + failed = 0),
  \<^verbatim>\<open>print_summary\<close> raises ZeroDivisionError: the success rate divides by the total,
  and nothing guards the division. The banner and the two counts are printed first.\<close>

theorem print_summary_empty_log_raises:
  "passed self + failed self = 0 \<Longrightarrow>
     print_summary self =
       ([Rule, Title, Rule, PassedLine (passed self) 0, FailedLine (failed self) 0],
        Inl ZeroDivisionError)"
  by (simp add: print_summary_def Let_def)

theorem print_summary_empty_log_raises_witness:
  "passed TestResults_init + failed TestResults_init = 0 \<and>
   print_summary TestResults_init =
     ([Rule, Title, Rule, PassedLine 0 0, FailedLine 0 0], Inl ZeroDivisionError)"
  using print_summary_empty_log_raises [of TestResults_init]
  by (simp add: TestResults_init_def)

section \<open>Submitting an entry\<close>

lemmas demo_defs = demo_env_def demo_world_def demo_accounts_def demo_create_def demo_store_def
  demo_post_def demo_login_def demo_line_def demo_api_def

lemma create_result_char:
  "create_result r =
     (case r of
        RequestException \<Rightarrow> PNone
      | Response status body \<Rightarrow>
          if status = 200 \<or> status = 201
          then (case body_id body of Some i \<Rightarrow> i | None \<Rightarrow> PNone)
          else PNone)"
proof (cases r)
  case RequestException
  then show ?thesis by (simp add: create_result_def)
next
  case (Response status body)
  show ?thesis
  proof (cases body)
    case None
    with Response show ?thesis by (simp add: create_result_def create_response_def)
  next
    case (Some j)
    show ?thesis
    proof (cases j)
      case (PDict kvs)
      show ?thesis
      proof (cases "map_of (rev kvs) ''data''")
        case None
        with Response Some PDict show ?thesis
          by (simp add: create_result_def create_response_def)
      next
        case (Some d)
        with Response \<open>body = Some j\<close> PDict show ?thesis
          by (cases d) (simp_all add: create_result_def create_response_def split: option.splits)
      qed
    qed (use Response Some in \<open>simp_all add: create_result_def create_response_def\<close>)
  qed
qed

text \<open>C5, as the code has it: \<^verbatim>\<open>create_journal_entry\<close> returns the identifier exactly
  when the status is 200 or 201 and the body is a well-formed \<^verbatim>\<open>{data: {id}}\<close>; for
  every other status (the other 2xx codes among them), for a body that is not well-formed
  and for every exception of the request it returns None, and it never raises: it is a
  total function to a value.\<close>

theorem create_journal_entry_200_201:
  "serve_create E w (token api) entry = (w', r) \<Longrightarrow>
   create_journal_entry E w api entry =
     (w', case r of
            RequestException \<Rightarrow> PNone
          | Response status body \<Rightarrow>
              if status = 200 \<or> status = 201
              then (case body_id body of Some i \<Rightarrow> i | None \<Rightarrow> PNone)
              else PNone)"
  by (simp add: create_journal_entry_def create_result_char)

theorem create_journal_entry_200_201_witness:
  "serve_create demo_env demo_world (token demo_api) (scenario_1_entry demo_env 1 2)
     = (fst (demo_store demo_world (scenario_1_entry demo_env 1 2)),
        Response 201 (Some (PDict [(''data'', PDict [(''id'', PNum 1)])])))
   \<and> create_journal_entry demo_env demo_world demo_api (scenario_1_entry demo_env 1 2)
     = (fst (demo_store demo_world (scenario_1_entry demo_env 1 2)), PNum 1)"
proof -
  have h: "serve_create demo_env demo_world (token demo_api) (scenario_1_entry demo_env 1 2)
     = (fst (demo_store demo_world (scenario_1_entry demo_env 1 2)),
        Response 201 (Some (PDict [(''data'', PDict [(''id'', PNum 1)])])))"
    by (simp add: demo_defs scenario_1_entry_def Let_def)
  show ?thesis
    using h create_journal_entry_200_201 [OF h] by simp
qed

text \<open>The statement of the specification fails at status 202, a 2xx status, with a well-formed body that
  holds the identifier 7: the call returns None.\<close>

theorem create_journal_entry_202_counterexample:
  "is_2xx 202
   \<and> body_id (Some (PDict [(''data'', PDict [(''id'', PNum 7)])])) = Some (PNum 7)
   \<and> create_journal_entry
        (demo_env\<lparr>serve_create :=
            (\<lambda>w tok e. (w, Response 202 (Some (PDict [(''data'', PDict [(''id'', PNum 7)])]))))\<rparr>)
        demo_world demo_api (scenario_1_entry demo_env 1 2)
      = (demo_world, PNone)"
  by (simp add: is_2xx_def create_journal_entry_def create_result_def create_response_def)

section \<open>The trial balance\<close>

lemma or0_id: "or0 x = x"
  by (simp add: or0_def)

lemma case_pos_nonneg: "0 \<le> x \<Longrightarrow> case_pos x = x"
  by (simp add: case_pos_def)

lemma tb_rows_fold_keys:
  "fst ` set (fold (\<lambda>(a, d, c) res. AList.update a (f d c) res) xs acc)
     = fst ` set xs \<union> fst ` set acc"
  by (induction xs arbitrary: acc) (auto simp: dom_update split: prod.splits)

lemma tb_rows_fold_distinct:
  "distinct (map fst acc) \<Longrightarrow>
   distinct (map fst (fold (\<lambda>(a, d, c) res. AList.update a (f d c) res) xs acc))"
  by (induction xs arbitrary: acc) (auto simp: distinct_update split: prod.splits)

lemma tb_rows_fold_map_of:
  "distinct (map fst xs) \<Longrightarrow>
   map_of (fold (\<lambda>(a, d, c) res. AList.update a (f d c) res) xs acc) k
     = (case map_of xs k of None \<Rightarrow> map_of acc k | Some (d, c) \<Rightarrow> Some (f d c))"
proof (induction xs arbitrary: acc)
  case Nil
  then show ?case by simp
next
  case (Cons x xs)
  obtain a d c where x: "x = (a, d, c)" by (cases x)
  from Cons.prems x have notin: "a \<notin> fst ` set xs" and dist: "distinct (map fst xs)"
    by auto
  from notin have none: "map_of xs a = None"
    by (simp add: map_of_eq_None_iff)
  show ?case
    using Cons.IH [OF dist, of "AList.update a (f d c) acc"] x none
    by (auto simp: update_conv' split: option.splits)
qed

lemma tb_selected_filter:
  "tb_selected w c = filter (on_posted_entry w c) (journal_entry_details w)"
  unfolding tb_selected_def on_posted_entry_def posted_entry_ids_def
  by (rule filter_cong) (force simp: list_ex_iff image_iff)+

lemma tb_query_keys:
  "map fst (tb_query w c) = remdups (map jed_account_id (tb_selected w c))"
  by (simp add: tb_query_def Let_def comp_def)

lemma map_of_map_key:
  "map_of (map (\<lambda>a. (a, g a)) ks) k = (if k \<in> set ks then Some (g k) else None)"
  by (induction ks) auto

lemma tb_query_map_of:
  "map_of (tb_query w c) a =
     (if a \<in> jed_account_id ` set (tb_selected w c)
      then Some (sum_list (map (\<lambda>l. case_pos (jed_debit_amount l))
                            (filter (\<lambda>l. jed_account_id l = a) (tb_selected w c))),
                 sum_list (map (\<lambda>l. case_pos (jed_credit_amount l))
                            (filter (\<lambda>l. jed_account_id l = a) (tb_selected w c))))
      else None)"
  unfolding tb_query_def Let_def
  by (simp add: map_of_map_key)

lemma filter_account_selected:
  "filter (\<lambda>l. jed_account_id l = a) (tb_selected w c) = posted_lines w c a"
  by (simp add: tb_selected_filter posted_lines_def conj_commute)

lemma sum_case_pos_nonneg:
  "(\<And>l. l \<in> set ls \<Longrightarrow> 0 \<le> f l) \<Longrightarrow>
   sum_list (map (\<lambda>l. case_pos (f l)) ls) = sum_list (map f ls)"
  by (induction ls) (simp_all add: case_pos_nonneg)

lemma posted_lines_subset: "set (posted_lines w c a) \<subseteq> set (journal_entry_details w)"
  by (auto simp: posted_lines_def)

text \<open>C3, as the code has it: when the query succeeds, \<^verbatim>\<open>get_trial_balance\<close> returns
  a mapping with one row per key; its keys are exactly the accounts with at least one
  detail line of the tenant on a posted, non-deleted entry of the tenant (the query reads
  no soft-delete mark of the line itself); the value of a key is the sum of those lines'
  debit amounts that are positive, the same sum of their credit amounts, and the
  difference of the two; when no line has a negative amount these are the plain sums of
  the debit and credit amounts. Lines of unposted or deleted entries, and lines and
  entries of other tenants, are not among the lines summed.\<close>

theorem get_trial_balance_sums:
  assumes "db_query_ok w"
  shows "\<exists>tb. get_trial_balance w c = Inr tb
           \<and> distinct (map fst tb)
           \<and> set (map fst tb) = {a. posted_lines w c a \<noteq> []}
           \<and> (\<forall>a \<in> set (map fst tb).
                 map_of tb a =
                   Some \<lparr>tb_debit = sum_list (map (\<lambda>l. case_pos (jed_debit_amount l)) (posted_lines w c a)),
                         tb_credit = sum_list (map (\<lambda>l. case_pos (jed_credit_amount l)) (posted_lines w c a)),
                         tb_balance = sum_list (map (\<lambda>l. case_pos (jed_debit_amount l)) (posted_lines w c a))
                                    - sum_list (map (\<lambda>l. case_pos (jed_credit_amount l)) (posted_lines w c a))\<rparr>)
           \<and> ((\<forall>l \<in> set (journal_entry_details w).
                   0 \<le> jed_debit_amount l \<and> 0 \<le> jed_credit_amount l) \<longrightarrow>
                (\<forall>a \<in> set (map fst tb).
                   map_of tb a =
                     Some \<lparr>tb_debit = sum_list (map jed_debit_amount (posted_lines w c a)),
                           tb_credit = sum_list (map jed_credit_amount (posted_lines w c a)),
                           tb_balance = sum_list (map jed_debit_amount (posted_lines w c a))
                                      - sum_list (map jed_credit_amount (posted_lines w c a))\<rparr>))"
proof -
  let ?tb = "tb_rows (tb_query w c)"
  have d: "distinct (map fst (tb_query w c))"
    by (simp add: tb_query_keys)
  have 1: "get_trial_balance w c = Inr ?tb"
    using assms by (simp add: get_trial_balance_def)
  have 2: "distinct (map fst ?tb)"
    unfolding tb_rows_def by (rule tb_rows_fold_distinct) simp
  have "fst ` set (tb_query w c) = jed_account_id ` set (tb_selected w c)"
    using tb_query_keys [of w c] by (metis set_map set_remdups)
  then have keys: "set (map fst ?tb) = jed_account_id ` set (tb_selected w c)"
    unfolding tb_rows_def set_map tb_rows_fold_keys by simp
  have 3: "set (map fst ?tb) = {a. posted_lines w c a \<noteq> []}"
    unfolding keys filter_account_selected [symmetric]
    by (auto simp: filter_empty_conv)
  have 4: "map_of ?tb a =
      Some \<lparr>tb_debit = sum_list (map (\<lambda>l. case_pos (jed_debit_amount l)) (posted_lines w c a)),
            tb_credit = sum_list (map (\<lambda>l. case_pos (jed_credit_amount l)) (posted_lines w c a)),
            tb_balance = sum_list (map (\<lambda>l. case_pos (jed_debit_amount l)) (posted_lines w c a))
                       - sum_list (map (\<lambda>l. case_pos (jed_credit_amount l)) (posted_lines w c a))\<rparr>"
    if "a \<in> set (map fst ?tb)" for a
  proof -
    from that keys have "a \<in> jed_account_id ` set (tb_selected w c)" by simp
    then show ?thesis
      unfolding tb_rows_def
      by (simp add: tb_rows_fold_map_of [OF d] tb_query_map_of or0_id filter_account_selected)
  qed
  have 5: "map_of ?tb a =
      Some \<lparr>tb_debit = sum_list (map jed_debit_amount (posted_lines w c a)),
            tb_credit = sum_list (map jed_credit_amount (posted_lines w c a)),
            tb_balance = sum_list (map jed_debit_amount (posted_lines w c a))
                       - sum_list (map jed_credit_amount (posted_lines w c a))\<rparr>"
    if nonneg: "\<forall>l \<in> set (journal_entry_details w).
                   0 \<le> jed_debit_amount l \<and> 0 \<le> jed_credit_amount l"
      and a: "a \<in> set (map fst ?tb)" for a
  proof -
    have "sum_list (map (\<lambda>l. case_pos (jed_debit_amount l)) (posted_lines w c a))
            = sum_list (map jed_debit_amount (posted_lines w c a))"
      using nonneg posted_lines_subset [of w c a] by (intro sum_case_pos_nonneg) auto
    moreover have "sum_list (map (\<lambda>l. case_pos (jed_credit_amount l)) (posted_lines w c a))
            = sum_list (map jed_credit_amount (posted_lines w c a))"
      using nonneg posted_lines_subset [of w c a] by (intro sum_case_pos_nonneg) auto
    ultimately show ?thesis using 4 [OF a] by simp
  qed
  from 1 2 3 4 5 show ?thesis by blast
qed

lemma books_posted_lines_7:
  "posted_lines books_world 1 7 = [books_line 1 1 7 100 0 []]"
  by (simp add: posted_lines_def books_world_def on_posted_entry_def books_line_def)

lemma books_nonneg:
  "\<forall>l \<in> set (journal_entry_details books_world).
      0 \<le> jed_debit_amount l \<and> 0 \<le> jed_credit_amount l"
  by (simp add: books_world_def books_line_def)

theorem get_trial_balance_sums_witness:
  "db_query_ok books_world
   \<and> (\<exists>tb. get_trial_balance books_world 1 = Inr tb
            \<and> map_of tb 7 = Some \<lparr>tb_debit = 100, tb_credit = 0, tb_balance = 100\<rparr>)"
proof -
  have ok: "db_query_ok books_world"
    by (simp add: books_world_def)
  from get_trial_balance_sums [OF ok, of 1] obtain tb where
    tb: "get_trial_balance books_world 1 = Inr tb"
    and keys: "set (map fst tb) = {a. posted_lines books_world 1 a \<noteq> []}"
    and plain: "(\<forall>l \<in> set (journal_entry_details books_world).
                   0 \<le> jed_debit_amount l \<and> 0 \<le> jed_credit_amount l) \<longrightarrow>
                (\<forall>a \<in> set (map fst tb).
                   map_of tb a =
                     Some \<lparr>tb_debit = sum_list (map jed_debit_amount (posted_lines books_world 1 a)),
                           tb_credit = sum_list (map jed_credit_amount (posted_lines books_world 1 a)),
                           tb_balance = sum_list (map jed_debit_amount (posted_lines books_world 1 a))
                                      - sum_list (map jed_credit_amount (posted_lines books_world 1 a))\<rparr>)"
    by blast
  from keys have "7 \<in> set (map fst tb)"
    by (simp add: books_posted_lines_7)
  with plain books_nonneg have "map_of tb 7 =
     Some \<lparr>tb_debit = sum_list (map jed_debit_amount (posted_lines books_world 1 7)),
           tb_credit = sum_list (map jed_credit_amount (posted_lines books_world 1 7)),
           tb_balance = sum_list (map jed_debit_amount (posted_lines books_world 1 7))
                      - sum_list (map jed_credit_amount (posted_lines books_world 1 7))\<rparr>"
    by blast
  then have "map_of tb 7 = Some \<lparr>tb_debit = 100, tb_credit = 0, tb_balance = 100\<rparr>"
    by (simp add: books_posted_lines_7 books_line_def)
  with ok tb show ?thesis by blast
qed

text \<open>The statement of the specification fails on a line that is itself soft-deleted and sits on a
  posted entry: account 9, whose only line is such a line, is a key of the result, with
  the line's 40 as its debit.\<close>

theorem soft_deleted_line_counted_counterexample:
  "line_soft_deleted (books_line 1 1 9 40 0 [(''deleted_at'', PStr ''2026-01-03'')])
   \<and> get_trial_balance books_world 1 =
       Inr [(7, \<lparr>tb_debit = 100, tb_credit = 0, tb_balance = 100\<rparr>),
            (8, \<lparr>tb_debit = 0, tb_credit = 100, tb_balance = - 100\<rparr>),
            (9, \<lparr>tb_debit = 40, tb_credit = 0, tb_balance = 40\<rparr>)]
   \<and> tb_keys_without_deleted_lines books_world 1 = [7, 8]"
  by (simp add: line_soft_deleted_def books_line_def get_trial_balance_def tb_rows_def
      tb_query_def tb_selected_def posted_entry_ids_def books_world_def case_pos_def or0_def
      tb_keys_without_deleted_lines_def on_posted_entry_def Let_def)

section \<open>Scenario 2: the unbalanced entry\<close>

lemma scenario_2_unresolved:
  assumes "get_account_id w ACCOUNTS_CASH TEST_COMPANY_ID = Inr cash"
    and "get_account_id w ACCOUNTS_CAPITAL TEST_COMPANY_ID = Inr capital"
    and "cash = None \<or> cash = Some 0 \<or> capital = None \<or> capital = Some 0"
  shows "scenario_2_unbalanced_entry E api w st =
          Inr (w, add_test st ''Scenario 2: Unbalanced Entry Rejection'' (PBool False)
                    (Msg ''Account IDs not found'') PNone (clock E (length (tests st))),
               PBool False, PNone)"
  using assms
  by (auto simp: scenario_2_unbalanced_entry_def Let_def split: option.splits)

lemma scenario_2_submitted:
  assumes "resolves w ACCOUNTS_CASH cash" and "resolves w ACCOUNTS_CAPITAL capital"
    and "create_journal_entry E w api (scenario_2_entry E cash capital) = (w1, entry_id)"
  shows "scenario_2_unbalanced_entry E api w st =
          Inr (w1, add_test st ''Scenario 2: Unbalanced Entry Rejection''
                     (PBool (entry_id = PNone))
                     (if entry_id = PNone then Msg ''System correctly rejected unbalanced entry''
                      else Msg ''System incorrectly accepted unbalanced entry'')
                     entry_id (clock E (length (tests st))),
               PBool (entry_id = PNone), entry_id)"
  using assms
  by (simp add: scenario_2_unbalanced_entry_def resolves_def Let_def)

lemma get_account_id_down:
  "\<not> db_query_ok w \<Longrightarrow> get_account_id w code c = Inl DatabaseError"
  by (simp add: get_account_id_def)

lemma get_account_id_up:
  "db_query_ok w \<Longrightarrow> \<exists>x. get_account_id w code c = Inr x"
  by (simp add: get_account_id_def split: list.splits)

lemma scenario_2_raises:
  assumes "\<not> db_query_ok w"
  shows "scenario_2_unbalanced_entry E api w st = Inl (DatabaseError, w, st)"
  using assms
  by (simp add: scenario_2_unbalanced_entry_def Let_def get_account_id_down)

lemma add_test_tests:
  "tests (add_test st name p d i now) =
     tests st @ [\<lparr>t_name = name, t_passed = p, t_details = d, t_entry_id = i, t_timestamp = now\<rparr>]"
  by (simp add: add_test_def Let_def)

lemma scenario_2_cases:
  obtains (raises) "\<not> db_query_ok w"
      "scenario_2_unbalanced_entry E api w st = Inl (DatabaseError, w, st)"
  | (unresolved) "\<not> (\<exists>cash capital. resolves w ACCOUNTS_CASH cash \<and> resolves w ACCOUNTS_CAPITAL capital)"
      "scenario_2_unbalanced_entry E api w st =
          Inr (w, add_test st ''Scenario 2: Unbalanced Entry Rejection'' (PBool False)
                    (Msg ''Account IDs not found'') PNone (clock E (length (tests st))),
               PBool False, PNone)"
  | (submitted) cash capital w1 entry_id where
      "resolves w ACCOUNTS_CASH cash" "resolves w ACCOUNTS_CAPITAL capital"
      "create_journal_entry E w api (scenario_2_entry E cash capital) = (w1, entry_id)"
      "scenario_2_unbalanced_entry E api w st =
          Inr (w1, add_test st ''Scenario 2: Unbalanced Entry Rejection''
                     (PBool (entry_id = PNone))
                     (if entry_id = PNone then Msg ''System correctly rejected unbalanced entry''
                      else Msg ''System incorrectly accepted unbalanced entry'')
                     entry_id (clock E (length (tests st))),
               PBool (entry_id = PNone), entry_id)"
proof (cases "db_query_ok w")
  case False
  then show ?thesis using raises scenario_2_raises by blast
next
  case True
  from get_account_id_up [OF True] obtain cash where
    cash: "get_account_id w ACCOUNTS_CASH TEST_COMPANY_ID = Inr cash" by blast
  from get_account_id_up [OF True] obtain capital where
    capital: "get_account_id w ACCOUNTS_CAPITAL TEST_COMPANY_ID = Inr capital" by blast
  show ?thesis
  proof (cases "cash = None \<or> cash = Some 0 \<or> capital = None \<or> capital = Some 0")
    case True
    with cash capital have "\<not> (\<exists>i j. resolves w ACCOUNTS_CASH i \<and> resolves w ACCOUNTS_CAPITAL j)"
      by (auto simp: resolves_def)
    then show ?thesis
      using unresolved scenario_2_unresolved [OF cash capital True] by blast
  next
    case False
    then obtain i j where ij: "cash = Some i" "i \<noteq> 0" "capital = Some j" "j \<noteq> 0"
      by auto
    with cash capital have r: "resolves w ACCOUNTS_CASH i" "resolves w ACCOUNTS_CAPITAL j"
      by (simp_all add: resolves_def)
    obtain w1 entry_id where
      c: "create_journal_entry E w api (scenario_2_entry E i j) = (w1, entry_id)"
      by (cases "create_journal_entry E w api (scenario_2_entry E i j)")
    show ?thesis
      using submitted [OF r c] scenario_2_submitted [OF r c] by blast
  qed
qed

lemma resolves_unique: "resolves w code i \<Longrightarrow> resolves w code j \<Longrightarrow> i = j"
  by (simp add: resolves_def)

lemma resolves_db: "resolves w code i \<Longrightarrow> db_query_ok w"
  by (simp add: resolves_def get_account_id_def split: if_splits)

lemma add_test_failure:
  "\<not> truthy p \<Longrightarrow> failed (add_test st name p d i now) = failed st + 1
     \<and> passed (add_test st name p d i now) = passed st"
  by (simp add: add_test_def Let_def)

lemma add_test_pass:
  "truthy p \<Longrightarrow> passed (add_test st name p d i now) = passed st + 1
     \<and> failed (add_test st name p d i now) = failed st"
  by (simp add: add_test_def Let_def)

text \<open>C6: scenario 2 records a pass if and only if it submits the unbalanced entry (both
  accounts resolve) and the submission returns no identifier. If the submission of the
  entry, debit cash 1000 and credit capital 500, returns an identifier, the scenario
  returns with one result appended, a failure (the value False, counted as failed) with
  that identifier attached, and returns the identifier with it. Whenever the queries of
  the account lookup succeed the scenario returns with exactly one result appended; when
  they fail it raises the database error and records nothing.\<close>

theorem scenario_2_passes_iff_rejected:
  "((\<exists>w' st' ret t. scenario_2_unbalanced_entry E api w st = Inr (w', st', ret)
        \<and> tests st' = tests st @ [t] \<and> truthy (t_passed t))
      \<longleftrightarrow> (\<exists>cash capital. resolves w ACCOUNTS_CASH cash \<and> resolves w ACCOUNTS_CAPITAL capital
             \<and> snd (create_journal_entry E w api (scenario_2_entry E cash capital)) = PNone))
   \<and> (\<forall>cash capital entry_id.
         resolves w ACCOUNTS_CASH cash \<and> resolves w ACCOUNTS_CAPITAL capital
         \<and> snd (create_journal_entry E w api (scenario_2_entry E cash capital)) = entry_id
         \<and> entry_id \<noteq> PNone
         \<longrightarrow> (\<exists>w' st' t.
                scenario_2_unbalanced_entry E api w st = Inr (w', st', PBool False, entry_id)
                \<and> tests st' = tests st @ [t]
                \<and> t_passed t = PBool False \<and> t_entry_id t = entry_id
                \<and> failed st' = failed st + 1 \<and> passed st' = passed st)
             \<and> map (\<lambda>l. (l_account_id l, l_debit_amount l, l_credit_amount l))
                   (e_details (scenario_2_entry E cash capital))
                 = [(cash, 1000, 0), (capital, 0, 500)])
   \<and> (db_query_ok w
        \<longrightarrow> (\<exists>w' st' ret t. scenario_2_unbalanced_entry E api w st = Inr (w', st', ret)
               \<and> tests st' = tests st @ [t]))
   \<and> (\<not> db_query_ok w
        \<longrightarrow> scenario_2_unbalanced_entry E api w st = Inl (DatabaseError, w, st))"
proof -
  let ?rejected = "\<exists>cash capital. resolves w ACCOUNTS_CASH cash \<and> resolves w ACCOUNTS_CAPITAL capital
             \<and> snd (create_journal_entry E w api (scenario_2_entry E cash capital)) = PNone"
  let ?pass = "\<exists>w' st' ret t. scenario_2_unbalanced_entry E api w st = Inr (w', st', ret)
        \<and> tests st' = tests st @ [t] \<and> truthy (t_passed t)"
  have a1: "?pass \<Longrightarrow> ?rejected"
  proof -
    assume p: ?pass
    show ?rejected
    proof (cases rule: scenario_2_cases [where E = E and api = api and w = w and st = st])
      case raises
      with p show ?thesis by simp
    next
      case unresolved
      with p show ?thesis by (auto simp: add_test_tests)
    next
      case (submitted cash capital w1 entry_id)
      with p have "entry_id = PNone" by (auto simp: add_test_tests)
      with submitted(1,2,3) show ?thesis
        by (intro exI [of _ cash] exI [of _ capital]) simp
    qed
  qed
  have a2: "?rejected \<Longrightarrow> ?pass"
  proof -
    assume ?rejected
    then obtain i j where r: "resolves w ACCOUNTS_CASH i" "resolves w ACCOUNTS_CAPITAL j"
      and n: "snd (create_journal_entry E w api (scenario_2_entry E i j)) = PNone"
      by blast
    obtain w1 where c: "create_journal_entry E w api (scenario_2_entry E i j) = (w1, PNone)"
      using n by (cases "create_journal_entry E w api (scenario_2_entry E i j)") simp
    from scenario_2_submitted [OF r c, of st] show ?pass
      by (simp add: add_test_tests)
  qed
  have b: "(\<exists>w' st' t.
                scenario_2_unbalanced_entry E api w st = Inr (w', st', PBool False, eid)
                \<and> tests st' = tests st @ [t]
                \<and> t_passed t = PBool False \<and> t_entry_id t = eid
                \<and> failed st' = failed st + 1 \<and> passed st' = passed st)
             \<and> map (\<lambda>l. (l_account_id l, l_debit_amount l, l_credit_amount l))
                   (e_details (scenario_2_entry E i j))
                 = [(i, 1000, 0), (j, 0, 500)]"
    if h: "resolves w ACCOUNTS_CASH i \<and> resolves w ACCOUNTS_CAPITAL j
          \<and> snd (create_journal_entry E w api (scenario_2_entry E i j)) = eid
          \<and> eid \<noteq> PNone" for i j eid
  proof -
    from h have r: "resolves w ACCOUNTS_CASH i" "resolves w ACCOUNTS_CAPITAL j" and ne: "eid \<noteq> PNone"
      by simp_all
    obtain w1 where c: "create_journal_entry E w api (scenario_2_entry E i j) = (w1, eid)"
      using h by (cases "create_journal_entry E w api (scenario_2_entry E i j)") simp
    from scenario_2_submitted [OF r c, of st] ne
    have "\<exists>w' st' t.
                scenario_2_unbalanced_entry E api w st = Inr (w', st', PBool False, eid)
                \<and> tests st' = tests st @ [t]
                \<and> t_passed t = PBool False \<and> t_entry_id t = eid
                \<and> failed st' = failed st + 1 \<and> passed st' = passed st"
      by (simp add: add_test_tests add_test_failure)
    then show ?thesis by (simp add: scenario_2_entry_def)
  qed
  have c: "\<exists>w' st' ret t. scenario_2_unbalanced_entry E api w st = Inr (w', st', ret)
               \<and> tests st' = tests st @ [t]" if up: "db_query_ok w"
  proof (cases rule: scenario_2_cases [where E = E and api = api and w = w and st = st])
    case raises
    with up show ?thesis by simp
  next
    case unresolved
    then show ?thesis by (simp add: add_test_tests)
  next
    case (submitted cash capital w1 entry_id)
    then show ?thesis by (simp add: add_test_tests)
  qed
  from a1 a2 have a: "?pass \<longleftrightarrow> ?rejected" by (rule iffI)
  from b have b': "\<forall>cash capital entry_id.
         resolves w ACCOUNTS_CASH cash \<and> resolves w ACCOUNTS_CAPITAL capital
         \<and> snd (create_journal_entry E w api (scenario_2_entry E cash capital)) = entry_id
         \<and> entry_id \<noteq> PNone
         \<longrightarrow> (\<exists>w' st' t.
                scenario_2_unbalanced_entry E api w st = Inr (w', st', PBool False, entry_id)
                \<and> tests st' = tests st @ [t]
                \<and> t_passed t = PBool False \<and> t_entry_id t = entry_id
                \<and> failed st' = failed st + 1 \<and> passed st' = passed st)
             \<and> map (\<lambda>l. (l_account_id l, l_debit_amount l, l_credit_amount l))
                   (e_details (scenario_2_entry E cash capital))
                 = [(cash, 1000, 0), (capital, 0, 500)]"
    by (intro allI impI)
  from c have c': "db_query_ok w
        \<longrightarrow> (\<exists>w' st' ret t. scenario_2_unbalanced_entry E api w st = Inr (w', st', ret)
               \<and> tests st' = tests st @ [t])"
    by (rule impI)
  have d: "\<not> db_query_ok w
        \<longrightarrow> scenario_2_unbalanced_entry E api w st = Inl (DatabaseError, w, st)"
    using scenario_2_raises by (rule impI)
  show ?thesis
    by (intro conjI) (rule a, rule b', rule c', rule d)
qed

lemma funded_resolves:
  "resolves funded_world ACCOUNTS_CASH 1" "resolves funded_world ACCOUNTS_CAPITAL 2"
  by (simp_all add: resolves_def get_account_id_def funded_world_def demo_defs ACCOUNTS_CASH_def
      ACCOUNTS_CAPITAL_def TEST_COMPANY_ID_def)

lemma lenient_create:
  "snd (create_journal_entry lenient_env funded_world demo_api (scenario_2_entry lenient_env 1 2))
     = PNum 2"
  by (simp add: lenient_env_def demo_defs funded_world_def create_journal_entry_def
      create_result_def create_response_def scenario_2_entry_def Let_def)

lemma funded_up: "db_query_ok funded_world"
  by (simp add: funded_world_def demo_defs)

theorem scenario_2_passes_iff_rejected_witness:
  "resolves funded_world ACCOUNTS_CASH 1 \<and> resolves funded_world ACCOUNTS_CAPITAL 2
   \<and> snd (create_journal_entry lenient_env funded_world demo_api
            (scenario_2_entry lenient_env 1 2)) = PNum 2
   \<and> db_query_ok funded_world
   \<and> (\<exists>w' st' t.
         scenario_2_unbalanced_entry lenient_env demo_api funded_world TestResults_init
           = Inr (w', st', PBool False, PNum 2)
         \<and> tests st' = tests TestResults_init @ [t]
         \<and> t_passed t = PBool False \<and> t_entry_id t = PNum 2
         \<and> failed st' = failed TestResults_init + 1 \<and> passed st' = passed TestResults_init)"
proof -
  have n: "PNum 2 \<noteq> PNone" by simp
  from scenario_2_passes_iff_rejected [of lenient_env demo_api funded_world TestResults_init]
  have "resolves funded_world ACCOUNTS_CASH 1 \<and> resolves funded_world ACCOUNTS_CAPITAL 2
         \<and> snd (create_journal_entry lenient_env funded_world demo_api
                  (scenario_2_entry lenient_env 1 2)) = PNum 2
         \<and> PNum 2 \<noteq> PNone
         \<longrightarrow> (\<exists>w' st' t.
         scenario_2_unbalanced_entry lenient_env demo_api funded_world TestResults_init
           = Inr (w', st', PBool False, PNum 2)
         \<and> tests st' = tests TestResults_init @ [t]
         \<and> t_passed t = PBool False \<and> t_entry_id t = PNum 2
         \<and> failed st' = failed TestResults_init + 1 \<and> passed st' = passed TestResults_init)"
    by blast
  with funded_resolves lenient_create funded_up n show ?thesis by blast
qed

lemma only_staged_entries:
  assumes "only_staged w w'"
  shows "\<exists>es. journal_entries w' = journal_entries w @ es
              \<and> (\<forall>e \<in> set es. je_status e \<noteq> ''posted'')"
proof -
  let ?n = "length (journal_entries w)"
  have "journal_entries w' = take ?n (journal_entries w') @ drop ?n (journal_entries w')"
    by simp
  with assms show ?thesis
    unfolding only_staged_def Let_def list_all_iff by metis
qed

lemma only_staged_details:
  assumes "only_staged w w'"
  shows "\<exists>ls. journal_entry_details w' = journal_entry_details w @ ls
              \<and> (\<forall>l \<in> set ls. jed_journal_entry_id l \<notin> je_id ` set (journal_entries w))"
proof -
  let ?m = "length (journal_entry_details w)"
  have "journal_entry_details w' =
          take ?m (journal_entry_details w') @ drop ?m (journal_entry_details w')"
    by simp
  with assms show ?thesis
    unfolding only_staged_def Let_def list_all_iff set_map by metis
qed

lemma only_staged_posted_ids:
  assumes "only_staged w w'"
  shows "posted_entry_ids w' c = posted_entry_ids w c"
proof -
  from only_staged_entries [OF assms] obtain es where
    es: "journal_entries w' = journal_entries w @ es" "\<forall>e \<in> set es. je_status e \<noteq> ''posted''"
    by blast
  from es(2) have "filter (\<lambda>e. je_company_id e = c \<and> je_status e = ''posted''
                            \<and> je_deleted_at e = None) es = []"
    by (simp add: filter_empty_conv)
  with es(1) show ?thesis by (simp add: posted_entry_ids_def)
qed

lemma posted_entry_ids_subset: "set (posted_entry_ids w c) \<subseteq> je_id ` set (journal_entries w)"
  by (auto simp: posted_entry_ids_def)

lemma only_staged_selected:
  assumes "only_staged w w'"
  shows "tb_selected w' c = tb_selected w c"
proof -
  from only_staged_details [OF assms] obtain ls where
    ls: "journal_entry_details w' = journal_entry_details w @ ls"
      "\<forall>l \<in> set ls. jed_journal_entry_id l \<notin> je_id ` set (journal_entries w)"
    by blast
  from ls(2) posted_entry_ids_subset [of w c]
  have "filter (\<lambda>l. jed_company_id l = c
                \<and> jed_journal_entry_id l \<in> set (posted_entry_ids w c)) ls = []"
    by (auto simp: filter_empty_conv)
  with ls(1) show ?thesis
    by (simp add: tb_selected_def only_staged_posted_ids [OF assms])
qed

lemma only_staged_tb_query:
  "only_staged w w' \<Longrightarrow> tb_query w' c = tb_query w c"
  by (simp add: tb_query_def only_staged_selected)

lemma only_staged_refl: "only_staged w w"
  by (simp add: only_staged_def)

text \<open>C9, as the code has it: scenario 2 never calls \<^verbatim>\<open>post_journal_entry\<close>. Whatever
  the post endpoint would do, the scenario ends the same way in the same state, and that
  state is the one it started in or the one in which the ledger answered its one creation
  request. So with a ledger whose creation only stages (an accepted entry is left
  unposted), the posted entries, and with them the rows the trial-balance query returns,
  are after scenario 2 what they were before it, however the scenario ends.\<close>

theorem scenario_2_never_posts:
  "scenario_2_unbalanced_entry (E\<lparr>serve_post := f\<rparr>) api w st
       = scenario_2_unbalanced_entry E api w st
   \<and> (world_after (scenario_2_unbalanced_entry E api w st) = w
       \<or> (\<exists>cash capital. resolves w ACCOUNTS_CASH cash \<and> resolves w ACCOUNTS_CAPITAL capital
              \<and> world_after (scenario_2_unbalanced_entry E api w st)
                  = fst (serve_create E w (token api) (scenario_2_entry E cash capital))))
   \<and> ((\<forall>tok e. only_staged w (fst (serve_create E w tok e)))
        \<longrightarrow> posted_entry_ids (world_after (scenario_2_unbalanced_entry E api w st)) c
              = posted_entry_ids w c
            \<and> tb_query (world_after (scenario_2_unbalanced_entry E api w st)) c = tb_query w c)"
proof -
  have 1: "scenario_2_unbalanced_entry (E\<lparr>serve_post := f\<rparr>) api w st
           = scenario_2_unbalanced_entry E api w st"
  proof -
    have c1: "create_journal_entry (E\<lparr>serve_post := f\<rparr>) = create_journal_entry E"
      by (intro ext) (simp add: create_journal_entry_def)
    have c2: "scenario_2_entry (E\<lparr>serve_post := f\<rparr>) = scenario_2_entry E"
      by (intro ext) (simp add: scenario_2_entry_def)
    have c3: "clock (E\<lparr>serve_post := f\<rparr>) = clock E"
      by simp
    show ?thesis
      unfolding scenario_2_unbalanced_entry_def c1 c2 c3 by (rule refl)
  qed
  have 2: "world_after (scenario_2_unbalanced_entry E api w st) = w
       \<or> (\<exists>cash capital. resolves w ACCOUNTS_CASH cash \<and> resolves w ACCOUNTS_CAPITAL capital
              \<and> world_after (scenario_2_unbalanced_entry E api w st)
                  = fst (serve_create E w (token api) (scenario_2_entry E cash capital)))"
  proof (cases rule: scenario_2_cases [where E = E and api = api and w = w and st = st])
    case raises
    then show ?thesis by (simp add: world_after_def)
  next
    case unresolved
    then show ?thesis by (simp add: world_after_def)
  next
    case (submitted cash capital w1 entry_id)
    from submitted(3) have "w1 = fst (serve_create E w (token api) (scenario_2_entry E cash capital))"
      by (auto simp: create_journal_entry_def split: prod.splits)
    with submitted(1,2,4) have "resolves w ACCOUNTS_CASH cash \<and> resolves w ACCOUNTS_CAPITAL capital
              \<and> world_after (scenario_2_unbalanced_entry E api w st)
                  = fst (serve_create E w (token api) (scenario_2_entry E cash capital))"
      by (simp add: world_after_def)
    then show ?thesis by blast
  qed
  have 3: "posted_entry_ids (world_after (scenario_2_unbalanced_entry E api w st)) c
              = posted_entry_ids w c
            \<and> tb_query (world_after (scenario_2_unbalanced_entry E api w st)) c = tb_query w c"
    if h: "\<forall>tok e. only_staged w (fst (serve_create E w tok e))"
  proof -
    from 2 h have "only_staged w (world_after (scenario_2_unbalanced_entry E api w st))"
      by (auto simp: only_staged_refl)
    then show ?thesis
      by (simp add: only_staged_posted_ids only_staged_tb_query)
  qed
  from 1 2 3 show ?thesis by blast
qed

lemma lenient_only_staged:
  "only_staged funded_world (fst (serve_create lenient_env funded_world tok e))"
  by (simp add: only_staged_def lenient_env_def demo_defs funded_world_def Let_def list_all_iff)

lemma funded_tb_query: "tb_query funded_world 1 = [(1, 100000, 0), (2, 0, 100000)]"
  by (simp add: tb_query_def tb_selected_def posted_entry_ids_def funded_world_def demo_defs
      books_line_def case_pos_def Let_def)

theorem scenario_2_never_posts_witness:
  "(\<forall>tok e. only_staged funded_world (fst (serve_create lenient_env funded_world tok e)))
   \<and> snd (snd (snd (case scenario_2_unbalanced_entry lenient_env demo_api funded_world
                          TestResults_init of Inr x \<Rightarrow> x))) = PNum 2
   \<and> tb_query (world_after (scenario_2_unbalanced_entry lenient_env demo_api funded_world
                               TestResults_init)) 1
       = [(1, 100000, 0), (2, 0, 100000)]"
proof -
  have h: "\<forall>tok e. only_staged funded_world (fst (serve_create lenient_env funded_world tok e))"
    using lenient_only_staged by blast
  have e: "snd (snd (snd (case scenario_2_unbalanced_entry lenient_env demo_api funded_world
                          TestResults_init of Inr x \<Rightarrow> x))) = PNum 2"
    by (simp add: scenario_2_unbalanced_entry_def lenient_env_def demo_defs funded_world_def
        get_account_id_def ACCOUNTS_CASH_def
        ACCOUNTS_CAPITAL_def TEST_COMPANY_ID_def create_journal_entry_def create_result_def
        create_response_def scenario_2_entry_def TestResults_init_def Let_def)
  from scenario_2_never_posts [where E = lenient_env and f = "\<lambda>w tok i. (w, RequestException)"
      and api = demo_api and w = funded_world and st = TestResults_init and c = 1]
    funded_tb_query h e
  show ?thesis by simp
qed

text \<open>The statement of the specification fails with a ledger that posts an entry as it creates
  it: scenario 2 still makes no post request (the scenario is the same whatever the post
  endpoint does), yet the unbalanced entry it submitted is among the posted entries
  afterwards and the aggregates of cash and capital have changed.\<close>

theorem scenario_2_eager_ledger_counterexample:
  "scenario_2_unbalanced_entry (eager_env\<lparr>serve_post := (\<lambda>w tok i. (w, RequestException))\<rparr>)
       demo_api funded_world TestResults_init
     = scenario_2_unbalanced_entry eager_env demo_api funded_world TestResults_init
   \<and> posted_entry_ids funded_world 1 = [1]
   \<and> posted_entry_ids (world_after (scenario_2_unbalanced_entry eager_env demo_api funded_world
                                       TestResults_init)) 1 = [1, 2]
   \<and> tb_query funded_world 1 = [(1, 100000, 0), (2, 0, 100000)]
   \<and> tb_query (world_after (scenario_2_unbalanced_entry eager_env demo_api funded_world
                               TestResults_init)) 1
       = [(1, 101000, 0), (2, 0, 100500)]"
proof -
  have r: "resolves funded_world ACCOUNTS_CASH 1" "resolves funded_world ACCOUNTS_CAPITAL 2"
    by (rule funded_resolves)+
  obtain w1 eid where
    c: "create_journal_entry eager_env funded_world demo_api (scenario_2_entry eager_env 1 2)
          = (w1, eid)"
    by (cases "create_journal_entry eager_env funded_world demo_api (scenario_2_entry eager_env 1 2)")
  from c have w1: "w1 = fst (eager_create funded_world (PStr ''t'') (scenario_2_entry eager_env 1 2))"
    by (auto simp: create_journal_entry_def eager_env_def demo_api_def split: prod.splits)
  have a: "world_after (scenario_2_unbalanced_entry eager_env demo_api funded_world
                          TestResults_init) = w1"
    unfolding scenario_2_submitted [OF r c] by (simp add: world_after_def)
  have p0: "posted_entry_ids funded_world 1 = [1]"
    by (simp add: posted_entry_ids_def funded_world_def demo_defs)
  have p1: "posted_entry_ids w1 1 = [1, 2]"
    unfolding w1
    by (simp add: posted_entry_ids_def eager_create_def funded_world_def demo_defs
        scenario_2_entry_def Let_def)
  have q1: "tb_query w1 1 = [(1, 101000, 0), (2, 0, 100500)]"
    unfolding w1
    by (simp add: tb_query_def tb_selected_def posted_entry_ids_def eager_create_def
        funded_world_def demo_defs scenario_2_entry_def books_line_def case_pos_def Let_def)
  have s: "scenario_2_unbalanced_entry (eager_env\<lparr>serve_post := (\<lambda>w tok i. (w, RequestException))\<rparr>)
       demo_api funded_world TestResults_init
     = scenario_2_unbalanced_entry eager_env demo_api funded_world TestResults_init"
  proof -
    have c1: "create_journal_entry (eager_env\<lparr>serve_post := (\<lambda>w tok i. (w, RequestException))\<rparr>)
                = create_journal_entry eager_env"
      by (intro ext) (simp add: create_journal_entry_def)
    have c2: "scenario_2_entry (eager_env\<lparr>serve_post := (\<lambda>w tok i. (w, RequestException))\<rparr>)
                = scenario_2_entry eager_env"
      by (intro ext) (simp add: scenario_2_entry_def)
    have c3: "clock (eager_env\<lparr>serve_post := (\<lambda>w tok i. (w, RequestException))\<rparr>) = clock eager_env"
      by simp
    show ?thesis
      unfolding scenario_2_unbalanced_entry_def c1 c2 c3 by (rule refl)
  qed
  show ?thesis
    unfolding a by (intro conjI) (rule s, rule p0, rule p1, rule funded_tb_query, rule q1)
qed

section \<open>The paths through a scenario\<close>










lemma scenario_1_verified:
  assumes
    "resolves w ACCOUNTS_CASH cash" and "resolves w ACCOUNTS_CAPITAL other"
    and "create_journal_entry E w api (scenario_1_entry E cash other) = (w1, entry_id)"
    and "truthy entry_id"
    and "post_journal_entry E w1 api entry_id = (w2, True)"
    and "get_trial_balance w2 TEST_COMPANY_ID = Inr tb"
  shows "scenario_1_balanced_entry E api w st =
          Inr (w2, add_test st ''Scenario 1: Basic Balanced Entry''
                     (PBool (flt (fabs (fsub (float_sum E (map (\<lambda>(a, acc). row_debit acc) tb))
                                         (float_sum E (map (\<lambda>(a, acc). row_credit acc) tb))))
                                 (py_float (1 / 100))))
                     (Fmt ''Debit: {:,.2f} | Credit: {:,.2f}'' 
                        [float_sum E (map (\<lambda>(a, acc). row_debit acc) tb),
                         float_sum E (map (\<lambda>(a, acc). row_credit acc) tb)])
                     entry_id (clock E (length (tests st))),
               (PBool (flt (fabs (fsub (float_sum E (map (\<lambda>(a, acc). row_debit acc) tb))
                                         (float_sum E (map (\<lambda>(a, acc). row_credit acc) tb))))
                                 (py_float (1 / 100)))),
               entry_id)"
  using assms by (simp add: scenario_1_balanced_entry_def resolves_def Let_def)







lemma scenario_3_verified:
  assumes
    "resolves w ACCOUNTS_CASH cash" and "resolves w ACCOUNTS_SALES_REVENUE other"
    and "create_journal_entry E w api (scenario_3_entry E cash other) = (w1, entry_id)"
    and "truthy entry_id"
    and "post_journal_entry E w1 api entry_id = (w2, True)"
    and "get_trial_balance w2 TEST_COMPANY_ID = Inr tb"
  shows "scenario_3_revenue_transaction E api w st =
          Inr (w2, add_test st ''Scenario 3: Revenue Transaction''
                     (case map_of tb other of None \<Rightarrow> PNone | Some row \<Rightarrow> PBool (flt (fabs (fsub (row_credit row) (py_float 50000))) (py_float (1 / 100))))
                     (Fmt ''Revenue Credit: {:,.2f}'' [case map_of tb other of None \<Rightarrow> Finite 0 | Some row \<Rightarrow> row_credit row])
                     entry_id (clock E (length (tests st))),
               (case map_of tb other of None \<Rightarrow> PNone | Some row \<Rightarrow> PBool (flt (fabs (fsub (row_credit row) (py_float 50000))) (py_float (1 / 100)))),
               entry_id)"
  using assms by (simp add: scenario_3_revenue_transaction_def resolves_def Let_def split: option.splits)







lemma scenario_4_verified:
  assumes
    "resolves w ACCOUNTS_CASH cash" and "resolves w ACCOUNTS_SALARY_EXPENSE other"
    and "create_journal_entry E w api (scenario_4_entry E cash other) = (w1, entry_id)"
    and "truthy entry_id"
    and "post_journal_entry E w1 api entry_id = (w2, True)"
    and "get_trial_balance w2 TEST_COMPANY_ID = Inr tb"
  shows "scenario_4_expense_transaction E api w st =
          Inr (w2, add_test st ''Scenario 4: Expense Transaction''
                     (case map_of tb other of None \<Rightarrow> PNone | Some row \<Rightarrow> PBool (flt (fabs (fsub (row_debit row) (py_float 20000))) (py_float (1 / 100))))
                     (Fmt ''Salary Expense Debit: {:,.2f}'' [case map_of tb other of None \<Rightarrow> Finite 0 | Some row \<Rightarrow> row_debit row])
                     entry_id (clock E (length (tests st))),
               (case map_of tb other of None \<Rightarrow> PNone | Some row \<Rightarrow> PBool (flt (fabs (fsub (row_debit row) (py_float 20000))) (py_float (1 / 100)))),
               entry_id)"
  using assms by (simp add: scenario_4_expense_transaction_def resolves_def Let_def split: option.splits)







lemma scenario_5_verified:
  assumes
    "resolves w ACCOUNTS_CASH cash" and "resolves w ACCOUNTS_COGS other"
    and "create_journal_entry E w api (scenario_5_entry E cash other) = (w1, entry_id)"
    and "truthy entry_id"
    and "post_journal_entry E w1 api entry_id = (w2, True)"
    and "get_trial_balance w2 TEST_COMPANY_ID = Inr tb"
  shows "scenario_5_cogs_transaction E api w st =
          Inr (w2, add_test st ''Scenario 5: COGS Transaction''
                     (case map_of tb other of None \<Rightarrow> PNone | Some row \<Rightarrow> PBool (flt (fabs (fsub (row_debit row) (py_float 30000))) (py_float (1 / 100))))
                     (Fmt ''COGS Debit: {:,.2f}'' [case map_of tb other of None \<Rightarrow> Finite 0 | Some row \<Rightarrow> row_debit row])
                     entry_id (clock E (length (tests st))),
               (case map_of tb other of None \<Rightarrow> PNone | Some row \<Rightarrow> PBool (flt (fabs (fsub (row_debit row) (py_float 30000))) (py_float (1 / 100)))),
               entry_id)"
  using assms by (simp add: scenario_5_cogs_transaction_def resolves_def Let_def split: option.splits)



section \<open>Scenario 3: the revenue transaction\<close>

lemma created_and_posted_Some:
  assumes "created_and_posted E api w entry = Some (w2, entry_id, tb)"
  obtains w1 where "create_journal_entry E w api entry = (w1, entry_id)" "truthy entry_id"
    "post_journal_entry E w1 api entry_id = (w2, True)"
    "get_trial_balance w2 TEST_COMPANY_ID = Inr tb"
proof -
  obtain w1 i where c: "create_journal_entry E w api entry = (w1, i)"
    by (cases "create_journal_entry E w api entry")
  obtain w2' posted where p: "post_journal_entry E w1 api i = (w2', posted)"
    by (cases "post_journal_entry E w1 api i")
  from assms c p have t: "truthy i" and po: "posted"
    by (auto simp: created_and_posted_def split: if_splits)
  with assms c p have "w2' = w2 \<and> i = entry_id \<and> get_trial_balance w2 TEST_COMPANY_ID = Inr tb"
    by (auto simp: created_and_posted_def split: sum.splits)
  with c p t po show ?thesis using that by simp
qed

text \<open>C7, as the code has it: when scenario 3 has created and posted the entry, debit
  cash 50000 and credit sales revenue 50000, and has read the trial balance, it records
  one result, and the result is a pass if and only if the sales-revenue account has a row
  in that trial balance whose aggregate credit is within 0.01 of 50000, the three numbers
  being floats. The comparison is with the aggregate itself; the scenario reads no value
  from before the entry. For an aggregate that is a whole number this is: the aggregate is
  50000.\<close>

theorem scenario_3_passes_iff_credit_is_50000:
  assumes "resolves w ACCOUNTS_CASH cash" and "resolves w ACCOUNTS_SALES_REVENUE revenue"
    and "created_and_posted E api w (scenario_3_entry E cash revenue) = Some (w2, entry_id, tb)"
  shows "\<exists>st' ret t.
           scenario_3_revenue_transaction E api w st = Inr (w2, st', ret)
           \<and> tests st' = tests st @ [t]
           \<and> (truthy (t_passed t) \<longleftrightarrow>
                (\<exists>row. map_of tb revenue = Some row
                   \<and> flt (fabs (fsub (row_credit row) (py_float 50000))) (py_float (1 / 100))))
           \<and> (\<forall>row. map_of tb revenue = Some row \<and> tb_credit row \<in> \<int>
                   \<and> \<bar>tb_credit row\<bar> < 2 ^ 52
                 \<longrightarrow> (truthy (t_passed t) \<longleftrightarrow> tb_credit row = 50000))
           \<and> map (\<lambda>l. (l_account_id l, l_debit_amount l, l_credit_amount l))
                 (e_details (scenario_3_entry E cash revenue))
               = [(cash, 50000, 0), (revenue, 0, 50000)]"
proof -
  from created_and_posted_Some [OF assms(3)] obtain w1 where
    c: "create_journal_entry E w api (scenario_3_entry E cash revenue) = (w1, entry_id)"
    and t: "truthy entry_id"
    and p: "post_journal_entry E w1 api entry_id = (w2, True)"
    and g: "get_trial_balance w2 TEST_COMPANY_ID = Inr tb"
    by blast
  let ?v = "case map_of tb revenue of None \<Rightarrow> PNone
            | Some row \<Rightarrow>
                PBool (flt (fabs (fsub (row_credit row) (py_float 50000))) (py_float (1 / 100)))"
  let ?d = "Fmt ''Revenue Credit: {:,.2f}''
              [case map_of tb revenue of None \<Rightarrow> Finite 0 | Some row \<Rightarrow> row_credit row]"
  let ?now = "clock E (length (tests st))"
  let ?t = "\<lparr>t_name = ''Scenario 3: Revenue Transaction'', t_passed = ?v, t_details = ?d,
             t_entry_id = entry_id, t_timestamp = ?now\<rparr>"
  have 1: "scenario_3_revenue_transaction E api w st
             = Inr (w2, add_test st ''Scenario 3: Revenue Transaction'' ?v ?d entry_id ?now,
                    ?v, entry_id)"
    by (rule scenario_3_verified [OF assms(1,2) c t p g])
  have 2: "tests (add_test st ''Scenario 3: Revenue Transaction'' ?v ?d entry_id ?now)
             = tests st @ [?t]"
    by (rule add_test_tests)
  have 3: "truthy (t_passed ?t) \<longleftrightarrow>
             (\<exists>row. map_of tb revenue = Some row
                \<and> flt (fabs (fsub (row_credit row) (py_float 50000))) (py_float (1 / 100)))"
    by (cases "map_of tb revenue") simp_all
  have 5: "\<forall>row. map_of tb revenue = Some row \<and> tb_credit row \<in> \<int>
                   \<and> \<bar>tb_credit row\<bar> < 2 ^ 52
                 \<longrightarrow> (truthy (t_passed ?t) \<longleftrightarrow> tb_credit row = 50000)"
  proof (intro allI impI)
    fix row
    assume h: "map_of tb revenue = Some row \<and> tb_credit row \<in> \<int> \<and> \<bar>tb_credit row\<bar> < 2 ^ 52"
    then have "flt (fabs (fsub (py_float (tb_credit row)) (py_float 50000))) (py_float (1 / 100))
                 \<longleftrightarrow> tb_credit row = 50000"
      by (intro within_hundredth_int) simp_all
    with h show "truthy (t_passed ?t) \<longleftrightarrow> tb_credit row = 50000"
      by (simp add: row_credit_def)
  qed
  have 4: "map (\<lambda>l. (l_account_id l, l_debit_amount l, l_credit_amount l))
                 (e_details (scenario_3_entry E cash revenue))
               = [(cash, 50000, 0), (revenue, 0, 50000)]"
    by (simp add: scenario_3_entry_def)
  show ?thesis
    by (intro exI conjI) (rule 1, rule 2, rule 3, rule 5, rule 4)
qed

lemma demo_login_ok:
  "login demo_env w APIClient_init SUPER_ADMIN_EMAIL SUPER_ADMIN_PASSWORD = (w, demo_api, True)"
  by (simp add: login_def login_response_def demo_env_def demo_login_def demo_api_def
      APIClient_init_def)

lemma demo_resolves:
  "resolves demo_world ACCOUNTS_CASH 1" "resolves demo_world ACCOUNTS_CAPITAL 2"
  "resolves demo_world ACCOUNTS_SALES_REVENUE 3" "resolves demo_world ACCOUNTS_SALARY_EXPENSE 4"
  "resolves demo_world ACCOUNTS_COGS 5"
  by (simp_all add: resolves_def get_account_id_def demo_world_def demo_accounts_def
      ACCOUNTS_CASH_def ACCOUNTS_CAPITAL_def ACCOUNTS_SALES_REVENUE_def
      ACCOUNTS_SALARY_EXPENSE_def ACCOUNTS_COGS_def TEST_COMPANY_ID_def)

lemma resolves_journal_update:
  "resolves (w\<lparr>journal_entries := es, journal_entry_details := ls\<rparr>) code i = resolves w code i"
  by (simp add: resolves_def get_account_id_def)

lemma sold_resolves:
  "resolves sold_world ACCOUNTS_CASH 1" "resolves sold_world ACCOUNTS_SALES_REVENUE 3"
  unfolding sold_world_def resolves_journal_update by (rule demo_resolves)+

lemmas eval_defs = create_journal_entry_def create_result_def create_response_def
  post_journal_entry_def post_result_def get_trial_balance_def tb_rows_def tb_query_def
  tb_selected_def posted_entry_ids_def case_pos_def or0_def TEST_COMPANY_ID_def books_line_def
  created_and_posted_def

lemma sold_created_and_posted:
  "created_and_posted demo_env demo_api sold_world (scenario_3_entry demo_env 1 3)
     = Some (fst (demo_post (fst (demo_store sold_world (scenario_3_entry demo_env 1 3)))
                    (PStr ''t'') (PNum 2)),
             PNum 2,
             [(1, \<lparr>tb_debit = 100000, tb_credit = 0, tb_balance = 100000\<rparr>),
              (3, \<lparr>tb_debit = 0, tb_credit = 100000, tb_balance = - 100000\<rparr>)])"
  by (simp add: eval_defs demo_defs sold_world_def scenario_3_entry_def Let_def)

text \<open>The statement of the specification fails on books that already hold a sale: the aggregate credit
  of sales revenue is 50000 before the scenario and 100000 after the entry is created and
  posted, an increase of exactly 50000, and the scenario records a failure.\<close>

theorem scenario_3_second_sale_counterexample:
  "get_trial_balance sold_world 1
     = Inr [(1, \<lparr>tb_debit = 50000, tb_credit = 0, tb_balance = 50000\<rparr>),
            (3, \<lparr>tb_debit = 0, tb_credit = 50000, tb_balance = - 50000\<rparr>)]
   \<and> created_and_posted demo_env demo_api sold_world (scenario_3_entry demo_env 1 3)
     = Some (fst (demo_post (fst (demo_store sold_world (scenario_3_entry demo_env 1 3)))
                    (PStr ''t'') (PNum 2)),
             PNum 2,
             [(1, \<lparr>tb_debit = 100000, tb_credit = 0, tb_balance = 100000\<rparr>),
              (3, \<lparr>tb_debit = 0, tb_credit = 100000, tb_balance = - 100000\<rparr>)])
   \<and> scenario_3_revenue_transaction demo_env demo_api sold_world TestResults_init
     = Inr (fst (demo_post (fst (demo_store sold_world (scenario_3_entry demo_env 1 3)))
                    (PStr ''t'') (PNum 2)),
            add_test TestResults_init ''Scenario 3: Revenue Transaction'' (PBool False)
              (Fmt ''Revenue Credit: {:,.2f}'' [Finite 100000]) (PNum 2) ''2026-01-01T00:00:00'',
            PBool False, PNum 2)"
proof -
  have 1: "get_trial_balance sold_world 1
     = Inr [(1, \<lparr>tb_debit = 50000, tb_credit = 0, tb_balance = 50000\<rparr>),
            (3, \<lparr>tb_debit = 0, tb_credit = 50000, tb_balance = - 50000\<rparr>)]"
    by (simp add: eval_defs demo_defs sold_world_def Let_def)
  obtain w1 where
    c: "create_journal_entry demo_env sold_world demo_api (scenario_3_entry demo_env 1 3)
          = (w1, PNum 2)"
    and p: "post_journal_entry demo_env w1 demo_api (PNum 2)
          = (fst (demo_post (fst (demo_store sold_world (scenario_3_entry demo_env 1 3)))
                    (PStr ''t'') (PNum 2)), True)"
    and g: "get_trial_balance (fst (demo_post (fst (demo_store sold_world (scenario_3_entry demo_env 1 3)))
                    (PStr ''t'') (PNum 2))) TEST_COMPANY_ID
          = Inr [(1, \<lparr>tb_debit = 100000, tb_credit = 0, tb_balance = 100000\<rparr>),
              (3, \<lparr>tb_debit = 0, tb_credit = 100000, tb_balance = - 100000\<rparr>)]"
    using created_and_posted_Some [OF sold_created_and_posted] by blast
  have 3: "scenario_3_revenue_transaction demo_env demo_api sold_world TestResults_init
     = Inr (fst (demo_post (fst (demo_store sold_world (scenario_3_entry demo_env 1 3)))
                    (PStr ''t'') (PNum 2)),
            add_test TestResults_init ''Scenario 3: Revenue Transaction'' (PBool False)
              (Fmt ''Revenue Credit: {:,.2f}'' [Finite 100000]) (PNum 2) ''2026-01-01T00:00:00'',
            PBool False, PNum 2)"
    using scenario_3_verified [OF sold_resolves c _ p g, of TestResults_init]
    by (simp add: demo_env_def float_eval)
  from 1 sold_created_and_posted 3 show ?thesis by simp
qed

lemma demo_created_and_posted_3:
  "created_and_posted demo_env demo_api demo_world (scenario_3_entry demo_env 1 3)
     = Some (fst (demo_post (fst (demo_store demo_world (scenario_3_entry demo_env 1 3)))
                    (PStr ''t'') (PNum 1)),
             PNum 1,
             [(1, \<lparr>tb_debit = 50000, tb_credit = 0, tb_balance = 50000\<rparr>),
              (3, \<lparr>tb_debit = 0, tb_credit = 50000, tb_balance = - 50000\<rparr>)])"
  by (simp add: eval_defs demo_defs scenario_3_entry_def Let_def)

theorem scenario_3_passes_iff_credit_is_50000_witness:
  "resolves demo_world ACCOUNTS_CASH 1 \<and> resolves demo_world ACCOUNTS_SALES_REVENUE 3
   \<and> created_and_posted demo_env demo_api demo_world (scenario_3_entry demo_env 1 3)
     = Some (fst (demo_post (fst (demo_store demo_world (scenario_3_entry demo_env 1 3)))
                    (PStr ''t'') (PNum 1)),
             PNum 1,
             [(1, \<lparr>tb_debit = 50000, tb_credit = 0, tb_balance = 50000\<rparr>),
              (3, \<lparr>tb_debit = 0, tb_credit = 50000, tb_balance = - 50000\<rparr>)])
   \<and> (\<exists>st' ret t.
         scenario_3_revenue_transaction demo_env demo_api demo_world TestResults_init
           = Inr (fst (demo_post (fst (demo_store demo_world (scenario_3_entry demo_env 1 3)))
                    (PStr ''t'') (PNum 1)), st', ret)
         \<and> tests st' = [t] \<and> truthy (t_passed t))"
proof -
  from scenario_3_passes_iff_credit_is_50000
         [OF demo_resolves(1) demo_resolves(3) demo_created_and_posted_3, of TestResults_init]
  obtain st' ret t where
    r: "scenario_3_revenue_transaction demo_env demo_api demo_world TestResults_init
           = Inr (fst (demo_post (fst (demo_store demo_world (scenario_3_entry demo_env 1 3)))
                    (PStr ''t'') (PNum 1)), st', ret)"
    and l: "tests st' = tests TestResults_init @ [t]"
    and p: "truthy (t_passed t) \<longleftrightarrow>
              (\<exists>row. map_of [(1, \<lparr>tb_debit = 50000, tb_credit = 0, tb_balance = 50000\<rparr>),
                              (3, \<lparr>tb_debit = 0, tb_credit = 50000, tb_balance = - 50000\<rparr>)]
                          (3 :: int)
                        = Some row
                   \<and> flt (fabs (fsub (row_credit row) (py_float 50000))) (py_float (1 / 100)))"
    by blast
  from p have "truthy (t_passed t)" by (simp add: float_eval)
  moreover from l have "tests st' = [t]" by (simp add: TestResults_init_def)
  ultimately have "scenario_3_revenue_transaction demo_env demo_api demo_world TestResults_init
           = Inr (fst (demo_post (fst (demo_store demo_world (scenario_3_entry demo_env 1 3)))
                    (PStr ''t'') (PNum 1)), st', ret)
         \<and> tests st' = [t] \<and> truthy (t_passed t)"
    using r by simp
  then have "\<exists>st' ret t.
         scenario_3_revenue_transaction demo_env demo_api demo_world TestResults_init
           = Inr (fst (demo_post (fst (demo_store demo_world (scenario_3_entry demo_env 1 3)))
                    (PStr ''t'') (PNum 1)), st', ret)
         \<and> tests st' = [t] \<and> truthy (t_passed t)"
    by (intro exI)
  with demo_resolves(1) demo_resolves(3) demo_created_and_posted_3 show ?thesis
    by (intro conjI)
qed

section \<open>What a scenario records\<close>



lemma add_test_length:
  "length (tests (add_test st name p d i now)) = length (tests st) + 1"
  by (simp add: add_test_tests)























section \<open>The balance comparisons\<close>

text \<open>C8, as the code has it: every balance comparison of the harness, in scenarios 1,
  3, 4 and 5 and in the cross-validation, has the value of \<open>withinTolerance a b\<close> at the
  epsilon 0.01, on the floats the harness compares: the global debit and credit totals in
  scenario 1 and the cross-validation, the account's aggregate and the amount of the entry
  in scenarios 3, 4 and 5. The harness has no such predicate and no epsilon to set: each
  comparison is written out with the literal 0.01.\<close>

theorem comparisons_are_withinTolerance_of_a_hundredth:
  "(get_trial_balance wv TEST_COMPANY_ID = Inr tbv \<longrightarrow>
      cross_validation_trial_balance E wv st
        = Inr (wv, add_test st ''Cross-Validation: TB = GL''
                    (PBool (withinTolerance (total_debit E tbv) (total_credit E tbv)
                              (py_float (1 / 100))))
                    (Fmt ''Difference: {:,.2f}''
                       [fabs (fsub (total_debit E tbv) (total_credit E tbv))]) PNone
                    (clock E (length (tests st)))))
   \<and> ((resolves w ACCOUNTS_CASH cash \<and> resolves w ACCOUNTS_CAPITAL capital
       \<and> created_and_posted E api w (scenario_1_entry E cash capital) = Some (wa, ia, tba)) \<longrightarrow>
       (\<exists>d. scenario_1_balanced_entry E api w st
              = Inr (wa, add_test st ''Scenario 1: Basic Balanced Entry''
                          (PBool (withinTolerance (total_debit E tba) (total_credit E tba)
                                    (py_float (1 / 100)))) d ia
                          (clock E (length (tests st))),
                     PBool (withinTolerance (total_debit E tba) (total_credit E tba)
                                    (py_float (1 / 100))), ia)))
   \<and> ((resolves w ACCOUNTS_CASH cash \<and> resolves w ACCOUNTS_SALES_REVENUE revenue
       \<and> created_and_posted E api w (scenario_3_entry E cash revenue) = Some (wr, ir, tbr)
       \<and> map_of tbr revenue = Some rowr) \<longrightarrow>
       (\<exists>d. scenario_3_revenue_transaction E api w st
              = Inr (wr, add_test st ''Scenario 3: Revenue Transaction''
                          (PBool (withinTolerance (row_credit rowr) (py_float 50000)
                                    (py_float (1 / 100)))) d ir
                          (clock E (length (tests st))),
                     PBool (withinTolerance (row_credit rowr) (py_float 50000)
                                    (py_float (1 / 100))), ir)))
   \<and> ((resolves w ACCOUNTS_CASH cash \<and> resolves w ACCOUNTS_SALARY_EXPENSE salary
       \<and> created_and_posted E api w (scenario_4_entry E cash salary) = Some (wx, ix, tbx)
       \<and> map_of tbx salary = Some rowx) \<longrightarrow>
       (\<exists>d. scenario_4_expense_transaction E api w st
              = Inr (wx, add_test st ''Scenario 4: Expense Transaction''
                          (PBool (withinTolerance (row_debit rowx) (py_float 20000)
                                    (py_float (1 / 100)))) d ix
                          (clock E (length (tests st))),
                     PBool (withinTolerance (row_debit rowx) (py_float 20000)
                                    (py_float (1 / 100))), ix)))
   \<and> ((resolves w ACCOUNTS_CASH cash \<and> resolves w ACCOUNTS_COGS cogs
       \<and> created_and_posted E api w (scenario_5_entry E cash cogs) = Some (wc, ic, tbc)
       \<and> map_of tbc cogs = Some rowc) \<longrightarrow>
       (\<exists>d. scenario_5_cogs_transaction E api w st
              = Inr (wc, add_test st ''Scenario 5: COGS Transaction''
                          (PBool (withinTolerance (row_debit rowc) (py_float 30000)
                                    (py_float (1 / 100)))) d ic
                          (clock E (length (tests st))),
                     PBool (withinTolerance (row_debit rowc) (py_float 30000)
                                    (py_float (1 / 100))), ic)))"
proof -
  have s0: "(get_trial_balance wv TEST_COMPANY_ID = Inr tbv \<longrightarrow>
      cross_validation_trial_balance E wv st
        = Inr (wv, add_test st ''Cross-Validation: TB = GL''
                    (PBool (withinTolerance (total_debit E tbv) (total_credit E tbv)
                              (py_float (1 / 100))))
                    (Fmt ''Difference: {:,.2f}''
                       [fabs (fsub (total_debit E tbv) (total_credit E tbv))]) PNone
                    (clock E (length (tests st)))))"
    by (simp add: cross_validation_trial_balance_def withinTolerance_def total_debit_def
        total_credit_def Let_def)
  have s1: "((resolves w ACCOUNTS_CASH cash \<and> resolves w ACCOUNTS_CAPITAL capital
       \<and> created_and_posted E api w (scenario_1_entry E cash capital) = Some (wa, ia, tba)) \<longrightarrow>
       (\<exists>d. scenario_1_balanced_entry E api w st
              = Inr (wa, add_test st ''Scenario 1: Basic Balanced Entry''
                          (PBool (withinTolerance (total_debit E tba) (total_credit E tba)
                                    (py_float (1 / 100)))) d ia
                          (clock E (length (tests st))),
                     PBool (withinTolerance (total_debit E tba) (total_credit E tba)
                                    (py_float (1 / 100))), ia)))"
  proof (intro impI)
    assume a: "resolves w ACCOUNTS_CASH cash \<and> resolves w ACCOUNTS_CAPITAL capital
       \<and> created_and_posted E api w (scenario_1_entry E cash capital) = Some (wa, ia, tba)"
    then have r: "resolves w ACCOUNTS_CASH cash" "resolves w ACCOUNTS_CAPITAL capital"
      and cp: "created_and_posted E api w (scenario_1_entry E cash capital) = Some (wa, ia, tba)"
      by simp_all
    from created_and_posted_Some [OF cp] obtain w' where
      c: "create_journal_entry E w api (scenario_1_entry E cash capital) = (w', ia)"
      and t: "truthy ia"
      and p: "post_journal_entry E w' api ia = (wa, True)"
      and g: "get_trial_balance wa TEST_COMPANY_ID = Inr tba"
      by blast
    show "\<exists>d. scenario_1_balanced_entry E api w st
              = Inr (wa, add_test st ''Scenario 1: Basic Balanced Entry''
                          (PBool (withinTolerance (total_debit E tba) (total_credit E tba)
                                    (py_float (1 / 100)))) d ia
                          (clock E (length (tests st))),
                     PBool (withinTolerance (total_debit E tba) (total_credit E tba)
                                    (py_float (1 / 100))), ia)"
      unfolding scenario_1_verified [OF r c t p g] withinTolerance_def total_debit_def
        total_credit_def
      by (rule exI, rule refl)
  qed
  have s3: "((resolves w ACCOUNTS_CASH cash \<and> resolves w ACCOUNTS_SALES_REVENUE revenue
       \<and> created_and_posted E api w (scenario_3_entry E cash revenue) = Some (wr, ir, tbr)
       \<and> map_of tbr revenue = Some rowr) \<longrightarrow>
       (\<exists>d. scenario_3_revenue_transaction E api w st
              = Inr (wr, add_test st ''Scenario 3: Revenue Transaction''
                          (PBool (withinTolerance (row_credit rowr) (py_float 50000)
                                    (py_float (1 / 100)))) d ir
                          (clock E (length (tests st))),
                     PBool (withinTolerance (row_credit rowr) (py_float 50000)
                                    (py_float (1 / 100))), ir)))"
  proof (intro impI)
    assume a: "resolves w ACCOUNTS_CASH cash \<and> resolves w ACCOUNTS_SALES_REVENUE revenue
       \<and> created_and_posted E api w (scenario_3_entry E cash revenue) = Some (wr, ir, tbr)
       \<and> map_of tbr revenue = Some rowr"
    then have r: "resolves w ACCOUNTS_CASH cash" "resolves w ACCOUNTS_SALES_REVENUE revenue"
      and cp: "created_and_posted E api w (scenario_3_entry E cash revenue) = Some (wr, ir, tbr)"
      and m: "map_of tbr revenue = Some rowr"
      by simp_all
    from created_and_posted_Some [OF cp] obtain w' where
      c: "create_journal_entry E w api (scenario_3_entry E cash revenue) = (w', ir)"
      and t: "truthy ir"
      and p: "post_journal_entry E w' api ir = (wr, True)"
      and g: "get_trial_balance wr TEST_COMPANY_ID = Inr tbr"
      by blast
    show "\<exists>d. scenario_3_revenue_transaction E api w st
              = Inr (wr, add_test st ''Scenario 3: Revenue Transaction''
                          (PBool (withinTolerance (row_credit rowr) (py_float 50000)
                                    (py_float (1 / 100)))) d ir
                          (clock E (length (tests st))),
                     PBool (withinTolerance (row_credit rowr) (py_float 50000)
                                    (py_float (1 / 100))), ir)"
      unfolding scenario_3_verified [OF r c t p g] withinTolerance_def m option.case
      by (rule exI, rule refl)
  qed
  have s4: "((resolves w ACCOUNTS_CASH cash \<and> resolves w ACCOUNTS_SALARY_EXPENSE salary
       \<and> created_and_posted E api w (scenario_4_entry E cash salary) = Some (wx, ix, tbx)
       \<and> map_of tbx salary = Some rowx) \<longrightarrow>
       (\<exists>d. scenario_4_expense_transaction E api w st
              = Inr (wx, add_test st ''Scenario 4: Expense Transaction''
                          (PBool (withinTolerance (row_debit rowx) (py_float 20000)
                                    (py_float (1 / 100)))) d ix
                          (clock E (length (tests st))),
                     PBool (withinTolerance (row_debit rowx) (py_float 20000)
                                    (py_float (1 / 100))), ix)))"
  proof (intro impI)
    assume a: "resolves w ACCOUNTS_CASH cash \<and> resolves w ACCOUNTS_SALARY_EXPENSE salary
       \<and> created_and_posted E api w (scenario_4_entry E cash salary) = Some (wx, ix, tbx)
       \<and> map_of tbx salary = Some rowx"
    then have r: "resolves w ACCOUNTS_CASH cash" "resolves w ACCOUNTS_SALARY_EXPENSE salary"
      and cp: "created_and_posted E api w (scenario_4_entry E cash salary) = Some (wx, ix, tbx)"
      and m: "map_of tbx salary = Some rowx"
      by simp_all
    from created_and_posted_Some [OF cp] obtain w' where
      c: "create_journal_entry E w api (scenario_4_entry E cash salary) = (w', ix)"
      and t: "truthy ix"
      and p: "post_journal_entry E w' api ix = (wx, True)"
      and g: "get_trial_balance wx TEST_COMPANY_ID = Inr tbx"
      by blast
    show "\<exists>d. scenario_4_expense_transaction E api w st
              = Inr (wx, add_test st ''Scenario 4: Expense Transaction''
                          (PBool (withinTolerance (row_debit rowx) (py_float 20000)
                                    (py_float (1 / 100)))) d ix
                          (clock E (length (tests st))),
                     PBool (withinTolerance (row_debit rowx) (py_float 20000)
                                    (py_float (1 / 100))), ix)"
      unfolding scenario_4_verified [OF r c t p g] withinTolerance_def m option.case
      by (rule exI, rule refl)
  qed
  have s5: "((resolves w ACCOUNTS_CASH cash \<and> resolves w ACCOUNTS_COGS cogs
       \<and> created_and_posted E api w (scenario_5_entry E cash cogs) = Some (wc, ic, tbc)
       \<and> map_of tbc cogs = Some rowc) \<longrightarrow>
       (\<exists>d. scenario_5_cogs_transaction E api w st
              = Inr (wc, add_test st ''Scenario 5: COGS Transaction''
                          (PBool (withinTolerance (row_debit rowc) (py_float 30000)
                                    (py_float (1 / 100)))) d ic
                          (clock E (length (tests st))),
                     PBool (withinTolerance (row_debit rowc) (py_float 30000)
                                    (py_float (1 / 100))), ic)))"
  proof (intro impI)
    assume a: "resolves w ACCOUNTS_CASH cash \<and> resolves w ACCOUNTS_COGS cogs
       \<and> created_and_posted E api w (scenario_5_entry E cash cogs) = Some (wc, ic, tbc)
       \<and> map_of tbc cogs = Some rowc"
    then have r: "resolves w ACCOUNTS_CASH cash" "resolves w ACCOUNTS_COGS cogs"
      and cp: "created_and_posted E api w (scenario_5_entry E cash cogs) = Some (wc, ic, tbc)"
      and m: "map_of tbc cogs = Some rowc"
      by simp_all
    from created_and_posted_Some [OF cp] obtain w' where
      c: "create_journal_entry E w api (scenario_5_entry E cash cogs) = (w', ic)"
      and t: "truthy ic"
      and p: "post_journal_entry E w' api ic = (wc, True)"
      and g: "get_trial_balance wc TEST_COMPANY_ID = Inr tbc"
      by blast
    show "\<exists>d. scenario_5_cogs_transaction E api w st
              = Inr (wc, add_test st ''Scenario 5: COGS Transaction''
                          (PBool (withinTolerance (row_debit rowc) (py_float 30000)
                                    (py_float (1 / 100)))) d ic
                          (clock E (length (tests st))),
                     PBool (withinTolerance (row_debit rowc) (py_float 30000)
                                    (py_float (1 / 100))), ic)"
      unfolding scenario_5_verified [OF r c t p g] withinTolerance_def m option.case
      by (rule exI, rule refl)
  qed
  from s0 s1 s3 s4 s5 show ?thesis by (intro conjI)
qed

lemma demo_created_and_posted_1:
  "created_and_posted demo_env demo_api demo_world (scenario_1_entry demo_env 1 2)
     = Some (fst (demo_post (fst (demo_store demo_world (scenario_1_entry demo_env 1 2))) (PStr ''t'') (PNum 1)),
             PNum 1,
             [(1, \<lparr>tb_debit = 100000, tb_credit = 0, tb_balance = 100000\<rparr>), (2, \<lparr>tb_debit = 0, tb_credit = 100000, tb_balance = - 100000\<rparr>)])"
  by (simp add: eval_defs demo_defs scenario_1_entry_def Let_def)

lemma demo_created_and_posted_4:
  "created_and_posted demo_env demo_api demo_world (scenario_4_entry demo_env 1 4)
     = Some (fst (demo_post (fst (demo_store demo_world (scenario_4_entry demo_env 1 4))) (PStr ''t'') (PNum 1)),
             PNum 1,
             [(4, \<lparr>tb_debit = 20000, tb_credit = 0, tb_balance = 20000\<rparr>), (1, \<lparr>tb_debit = 0, tb_credit = 20000, tb_balance = - 20000\<rparr>)])"
  by (simp add: eval_defs demo_defs scenario_4_entry_def Let_def)

lemma demo_created_and_posted_5:
  "created_and_posted demo_env demo_api demo_world (scenario_5_entry demo_env 1 5)
     = Some (fst (demo_post (fst (demo_store demo_world (scenario_5_entry demo_env 1 5))) (PStr ''t'') (PNum 1)),
             PNum 1,
             [(5, \<lparr>tb_debit = 30000, tb_credit = 0, tb_balance = 30000\<rparr>), (1, \<lparr>tb_debit = 0, tb_credit = 30000, tb_balance = - 30000\<rparr>)])"
  by (simp add: eval_defs demo_defs scenario_5_entry_def Let_def)

lemma cent_tb:
  "get_trial_balance cent_world TEST_COMPANY_ID
     = Inr [(1, \<lparr>tb_debit = 10000001 / 100, tb_credit = 0, tb_balance = 10000001 / 100\<rparr>),
            (2, \<lparr>tb_debit = 0, tb_credit = 100000, tb_balance = - 100000\<rparr>)]"
  by (simp add: eval_defs demo_defs cent_world_def Let_def)

lemma float_sum_demo: "float_sum demo_env = sum_left"
  by (simp add: demo_env_def)

theorem comparisons_are_withinTolerance_of_a_hundredth_witness:
  "get_trial_balance cent_world TEST_COMPANY_ID
     = Inr [(1, \<lparr>tb_debit = 10000001 / 100, tb_credit = 0, tb_balance = 10000001 / 100\<rparr>),
            (2, \<lparr>tb_debit = 0, tb_credit = 100000, tb_balance = - 100000\<rparr>)]
   \<and> cross_validation_trial_balance demo_env cent_world TestResults_init
     = Inr (cent_world,
            add_test TestResults_init ''Cross-Validation: TB = GL'' (PBool True)
              (Fmt ''Difference: {:,.2f}'' [Finite (687194767 / 68719476736)]) PNone
              (clock demo_env (length (tests TestResults_init))))
   \<and> (\<exists>d. scenario_1_balanced_entry demo_env demo_api demo_world TestResults_init
            = Inr (fst (demo_post (fst (demo_store demo_world (scenario_1_entry demo_env 1 2))) (PStr ''t'') (PNum 1)),
                   add_test TestResults_init ''Scenario 1: Basic Balanced Entry'' (PBool True) d (PNum 1)
                     (clock demo_env (length (tests TestResults_init))),
                   PBool True, PNum 1))
   \<and> (\<exists>d. scenario_3_revenue_transaction demo_env demo_api demo_world TestResults_init
            = Inr (fst (demo_post (fst (demo_store demo_world (scenario_3_entry demo_env 1 3))) (PStr ''t'') (PNum 1)),
                   add_test TestResults_init ''Scenario 3: Revenue Transaction'' (PBool True) d (PNum 1)
                     (clock demo_env (length (tests TestResults_init))),
                   PBool True, PNum 1))
   \<and> (\<exists>d. scenario_4_expense_transaction demo_env demo_api demo_world TestResults_init
            = Inr (fst (demo_post (fst (demo_store demo_world (scenario_4_entry demo_env 1 4))) (PStr ''t'') (PNum 1)),
                   add_test TestResults_init ''Scenario 4: Expense Transaction'' (PBool True) d (PNum 1)
                     (clock demo_env (length (tests TestResults_init))),
                   PBool True, PNum 1))
   \<and> (\<exists>d. scenario_5_cogs_transaction demo_env demo_api demo_world TestResults_init
            = Inr (fst (demo_post (fst (demo_store demo_world (scenario_5_entry demo_env 1 5))) (PStr ''t'') (PNum 1)),
                   add_test TestResults_init ''Scenario 5: COGS Transaction'' (PBool True) d (PNum 1)
                     (clock demo_env (length (tests TestResults_init))),
                   PBool True, PNum 1))"
  using comparisons_are_withinTolerance_of_a_hundredth
      [where E = demo_env and api = demo_api and w = demo_world and wv = cent_world
        and st = TestResults_init
        and tbv = "[(1, \<lparr>tb_debit = 10000001 / 100, tb_credit = 0, tb_balance = 10000001 / 100\<rparr>), (2, \<lparr>tb_debit = 0, tb_credit = 100000, tb_balance = - 100000\<rparr>)]"
        and cash = 1 and capital = 2 and revenue = 3
        and salary = 4 and cogs = 5
        and wa = "fst (demo_post (fst (demo_store demo_world (scenario_1_entry demo_env 1 2))) (PStr ''t'') (PNum 1))"
        and wr = "fst (demo_post (fst (demo_store demo_world (scenario_3_entry demo_env 1 3))) (PStr ''t'') (PNum 1))"
        and wx = "fst (demo_post (fst (demo_store demo_world (scenario_4_entry demo_env 1 4))) (PStr ''t'') (PNum 1))"
        and wc = "fst (demo_post (fst (demo_store demo_world (scenario_5_entry demo_env 1 5))) (PStr ''t'') (PNum 1))"
        and ia = "PNum 1" and ir = "PNum 1" and ix = "PNum 1" and ic = "PNum 1"
        and tba = "[(1, \<lparr>tb_debit = 100000, tb_credit = 0, tb_balance = 100000\<rparr>), (2, \<lparr>tb_debit = 0, tb_credit = 100000, tb_balance = - 100000\<rparr>)]"
        and tbr = "[(1, \<lparr>tb_debit = 50000, tb_credit = 0, tb_balance = 50000\<rparr>), (3, \<lparr>tb_debit = 0, tb_credit = 50000, tb_balance = - 50000\<rparr>)]"
        and tbx = "[(4, \<lparr>tb_debit = 20000, tb_credit = 0, tb_balance = 20000\<rparr>), (1, \<lparr>tb_debit = 0, tb_credit = 20000, tb_balance = - 20000\<rparr>)]"
        and tbc = "[(5, \<lparr>tb_debit = 30000, tb_credit = 0, tb_balance = 30000\<rparr>), (1, \<lparr>tb_debit = 0, tb_credit = 30000, tb_balance = - 30000\<rparr>)]"
        and rowr = "\<lparr>tb_debit = 0, tb_credit = 50000, tb_balance = - 50000\<rparr>"
        and rowx = "\<lparr>tb_debit = 20000, tb_credit = 0, tb_balance = 20000\<rparr>"
        and rowc = "\<lparr>tb_debit = 30000, tb_credit = 0, tb_balance = 30000\<rparr>"]
    cent_tb demo_resolves demo_created_and_posted_1 demo_created_and_posted_3
    demo_created_and_posted_4 demo_created_and_posted_5
  by (simp add: withinTolerance_def total_debit_def total_credit_def float_sum_demo float_eval
      cent_eval)

text \<open>The statement of the specification, with a configurable epsilon, fails: on books whose totals
  differ by a half, \<open>withinTolerance\<close> at the epsilon 1 holds, and the cross-validation
  records a failure; nothing the harness is given changes its 0.01.\<close>

theorem fixed_epsilon_counterexample:
  "get_trial_balance half_world TEST_COMPANY_ID
     = Inr [(1, \<lparr>tb_debit = 1 / 2, tb_credit = 0, tb_balance = 1 / 2\<rparr>)]
   \<and> withinTolerance
         (total_debit demo_env [(1 :: int, \<lparr>tb_debit = 1 / 2, tb_credit = 0, tb_balance = 1 / 2\<rparr>)])
         (total_credit demo_env [(1 :: int, \<lparr>tb_debit = 1 / 2, tb_credit = 0, tb_balance = 1 / 2\<rparr>)])
         (py_float 1)
   \<and> cross_validation_trial_balance demo_env half_world TestResults_init
     = Inr (half_world,
            add_test TestResults_init ''Cross-Validation: TB = GL'' (PBool False)
              (Fmt ''Difference: {:,.2f}'' [Finite (1 / 2)]) PNone
              (clock demo_env (length (tests TestResults_init))))"
proof -
  have g: "get_trial_balance half_world TEST_COMPANY_ID
     = Inr [(1, \<lparr>tb_debit = 1 / 2, tb_credit = 0, tb_balance = 1 / 2\<rparr>)]"
    by (simp add: eval_defs demo_defs half_world_def Let_def)
  show ?thesis
    by (simp add: g cross_validation_trial_balance_def withinTolerance_def total_debit_def
        total_credit_def Let_def float_sum_demo float_eval cent_eval)
qed

section \<open>The run, its results file and its exit status\<close>

lemma comprehension_dunder_dict:
  "ts \<noteq> [] \<Longrightarrow> comprehension dunder_dict ts = Inl AttributeError"
  by (cases ts) (simp_all add: dunder_dict_def)

lemma cross_validation_nonempty:
  "cross_validation_trial_balance E w st = Inr (w', st') \<Longrightarrow> tests st' \<noteq> []"
  by (auto simp: cross_validation_trial_balance_def Let_def add_test_tests split: sum.splits)

lemma run_all_scenarios_nonempty:
  assumes "run_all_scenarios E api w st = Inr (w', st', out, success)"
  shows "tests st' \<noteq> []"
proof -
  from assms obtain w5 r5 where
    "cross_validation_trial_balance E w5 r5 = Inr (w', st')"
    by (auto simp: run_all_scenarios_def split: sum.splits prod.splits)
  then show ?thesis by (rule cross_validation_nonempty)
qed

text \<open>Whatever the ledger and the database do, no run exits with 0, and no run leaves a
  document in the results file: a run that reaches the serialization has at least the
  result of the cross-validation in its log.\<close>

lemma main_exit_code: "exit_code (main E w file) = 1"
proof (cases "connect_db w")
  case (Inl code)
  then show ?thesis
    by (auto simp: main_def connect_db_def split: if_splits)
next
  case (Inr u)
  obtain w0 api ok where l: "login E w APIClient_init SUPER_ADMIN_EMAIL SUPER_ADMIN_PASSWORD
      = (w0, api, ok)"
    by (cases "login E w APIClient_init SUPER_ADMIN_EMAIL SUPER_ADMIN_PASSWORD")
  show ?thesis
  proof (cases "run_all_scenarios E api w0 TestResults_init")
    case (Inl x)
    with Inr l show ?thesis
      by (cases x) (simp add: main_def finish_def)
  next
    case r: (Inr y)
    obtain w1 results out success where y: "y = (w1, results, out, success)"
      by (cases y)
    from r y have "tests results \<noteq> []"
      using run_all_scenarios_nonempty by blast
    then have "comprehension dunder_dict (tests results) = Inl AttributeError"
      by (rule comprehension_dunder_dict)
    with Inr l r y show ?thesis
      by (simp add: main_def finish_def)
  qed
qed

lemma main_results_file:
  "results_file (main E w file) = file \<or> results_file (main E w file) = Some EmptyFile"
proof (cases "connect_db w")
  case (Inl code)
  then show ?thesis
    by (simp add: main_def)
next
  case (Inr u)
  obtain w0 api ok where l: "login E w APIClient_init SUPER_ADMIN_EMAIL SUPER_ADMIN_PASSWORD
      = (w0, api, ok)"
    by (cases "login E w APIClient_init SUPER_ADMIN_EMAIL SUPER_ADMIN_PASSWORD")
  show ?thesis
  proof (cases "run_all_scenarios E api w0 TestResults_init")
    case (Inl x)
    with Inr l show ?thesis
      by (cases x) (simp add: main_def finish_def)
  next
    case r: (Inr y)
    obtain w1 results out success where y: "y = (w1, results, out, success)"
      by (cases y)
    from r y have "tests results \<noteq> []"
      using run_all_scenarios_nonempty by blast
    then have "comprehension dunder_dict (tests results) = Inl AttributeError"
      by (rule comprehension_dunder_dict)
    with Inr l r y show ?thesis
      by (simp add: main_def finish_def)
  qed
qed

lemma demo_clock: "clock demo_env n = ''2026-01-01T00:00:00''"
  by (simp add: demo_env_def)

lemma resolves_demo_books: "resolves (demo_books ls) code i = resolves demo_world code i"
  unfolding demo_books_def by (rule resolves_journal_update)

lemma demo_books_empty: "demo_books [] = demo_world"
  by (simp add: demo_books_def demo_world_def)

lemma demo_posted_1:
  "created_and_posted demo_env demo_api (demo_world)
       (scenario_1_entry demo_env 1 2)
     = Some (demo_books [(1, 1, 100000, 0), (1, 2, 0, 100000)], PNum 1,
             [(1, \<lparr>tb_debit = 100000, tb_credit = 0, tb_balance = 100000\<rparr>),
              (2, \<lparr>tb_debit = 0, tb_credit = 100000, tb_balance = - 100000\<rparr>)])"
  by (simp add: eval_defs demo_defs demo_books_def scenario_1_entry_def Let_def)

lemma demo_step_1:
  "scenario_1_balanced_entry demo_env demo_api (demo_world)
      (TestResults_init)
     = Inr (demo_books [(1, 1, 100000, 0), (1, 2, 0, 100000)],
            add_test
       (TestResults_init)
       ''Scenario 1: Basic Balanced Entry'' (PBool True) (Fmt ''Debit: {:,.2f} | Credit: {:,.2f}'' [Finite 100000, Finite 100000]) (PNum 1) ''2026-01-01T00:00:00'',
            PBool True, PNum 1)"
proof -
  have r: "resolves (demo_world) ACCOUNTS_CASH 1"
      "resolves (demo_world) ACCOUNTS_CAPITAL 2"
    by (rule demo_resolves)+
  from created_and_posted_Some [OF demo_posted_1] obtain w1 where
    c: "create_journal_entry demo_env (demo_world) demo_api (scenario_1_entry demo_env 1 2)
          = (w1, PNum 1)"
    and p: "post_journal_entry demo_env w1 demo_api (PNum 1) = (demo_books [(1, 1, 100000, 0), (1, 2, 0, 100000)], True)"
    and g: "get_trial_balance (demo_books [(1, 1, 100000, 0), (1, 2, 0, 100000)]) TEST_COMPANY_ID
          = Inr [(1, \<lparr>tb_debit = 100000, tb_credit = 0, tb_balance = 100000\<rparr>),
              (2, \<lparr>tb_debit = 0, tb_credit = 100000, tb_balance = - 100000\<rparr>)]"
    by blast
  have t: "truthy (PNum n)" if "n \<noteq> 0" for n
    using that by simp
  show ?thesis
    unfolding scenario_1_verified [OF r c t p g, simplified]
    by (simp add: demo_clock float_sum_demo float_eval)
qed

lemma demo_posted_3:
  "created_and_posted demo_env demo_api (demo_books [(1, 1, 100000, 0), (1, 2, 0, 100000)])
       (scenario_3_entry demo_env 1 3)
     = Some (demo_books [(1, 1, 100000, 0), (1, 2, 0, 100000), (2, 1, 50000, 0), (2, 3, 0, 50000)], PNum 2,
             [(2, \<lparr>tb_debit = 0, tb_credit = 100000, tb_balance = - 100000\<rparr>),
              (1, \<lparr>tb_debit = 150000, tb_credit = 0, tb_balance = 150000\<rparr>),
              (3, \<lparr>tb_debit = 0, tb_credit = 50000, tb_balance = - 50000\<rparr>)])"
  by (simp add: eval_defs demo_defs demo_books_def scenario_3_entry_def Let_def)

lemma demo_step_3:
  "scenario_3_revenue_transaction demo_env demo_api (demo_books [(1, 1, 100000, 0), (1, 2, 0, 100000)])
      (add_test
       (add_test
       (TestResults_init)
       ''Scenario 1: Basic Balanced Entry'' (PBool True) (Fmt ''Debit: {:,.2f} | Credit: {:,.2f}'' [Finite 100000, Finite 100000]) (PNum 1) ''2026-01-01T00:00:00'')
       ''Scenario 2: Unbalanced Entry Rejection'' (PBool True) (Msg ''System correctly rejected unbalanced entry'') (PNone) ''2026-01-01T00:00:00'')
     = Inr (demo_books [(1, 1, 100000, 0), (1, 2, 0, 100000), (2, 1, 50000, 0), (2, 3, 0, 50000)],
            add_test
       (add_test
       (add_test
       (TestResults_init)
       ''Scenario 1: Basic Balanced Entry'' (PBool True) (Fmt ''Debit: {:,.2f} | Credit: {:,.2f}'' [Finite 100000, Finite 100000]) (PNum 1) ''2026-01-01T00:00:00'')
       ''Scenario 2: Unbalanced Entry Rejection'' (PBool True) (Msg ''System correctly rejected unbalanced entry'') (PNone) ''2026-01-01T00:00:00'')
       ''Scenario 3: Revenue Transaction'' (PBool True) (Fmt ''Revenue Credit: {:,.2f}'' [Finite 50000]) (PNum 2) ''2026-01-01T00:00:00'',
            PBool True, PNum 2)"
proof -
  have r: "resolves (demo_books [(1, 1, 100000, 0), (1, 2, 0, 100000)]) ACCOUNTS_CASH 1"
      "resolves (demo_books [(1, 1, 100000, 0), (1, 2, 0, 100000)]) ACCOUNTS_SALES_REVENUE 3"
    unfolding resolves_demo_books by (rule demo_resolves)+
  from created_and_posted_Some [OF demo_posted_3] obtain w1 where
    c: "create_journal_entry demo_env (demo_books [(1, 1, 100000, 0), (1, 2, 0, 100000)]) demo_api (scenario_3_entry demo_env 1 3)
          = (w1, PNum 2)"
    and p: "post_journal_entry demo_env w1 demo_api (PNum 2) = (demo_books [(1, 1, 100000, 0), (1, 2, 0, 100000), (2, 1, 50000, 0), (2, 3, 0, 50000)], True)"
    and g: "get_trial_balance (demo_books [(1, 1, 100000, 0), (1, 2, 0, 100000), (2, 1, 50000, 0), (2, 3, 0, 50000)]) TEST_COMPANY_ID
          = Inr [(2, \<lparr>tb_debit = 0, tb_credit = 100000, tb_balance = - 100000\<rparr>),
              (1, \<lparr>tb_debit = 150000, tb_credit = 0, tb_balance = 150000\<rparr>),
              (3, \<lparr>tb_debit = 0, tb_credit = 50000, tb_balance = - 50000\<rparr>)]"
    by blast
  have t: "truthy (PNum n)" if "n \<noteq> 0" for n
    using that by simp
  show ?thesis
    unfolding scenario_3_verified [OF r c t p g, simplified]
    by (simp add: demo_clock float_sum_demo float_eval)
qed

lemma demo_posted_4:
  "created_and_posted demo_env demo_api (demo_books [(1, 1, 100000, 0), (1, 2, 0, 100000), (2, 1, 50000, 0), (2, 3, 0, 50000)])
       (scenario_4_entry demo_env 1 4)
     = Some (demo_books [(1, 1, 100000, 0), (1, 2, 0, 100000), (2, 1, 50000, 0), (2, 3, 0, 50000), (3, 4, 20000, 0), (3, 1, 0, 20000)], PNum 3,
             [(2, \<lparr>tb_debit = 0, tb_credit = 100000, tb_balance = - 100000\<rparr>),
              (3, \<lparr>tb_debit = 0, tb_credit = 50000, tb_balance = - 50000\<rparr>),
              (4, \<lparr>tb_debit = 20000, tb_credit = 0, tb_balance = 20000\<rparr>),
              (1, \<lparr>tb_debit = 150000, tb_credit = 20000, tb_balance = 130000\<rparr>)])"
  by (simp add: eval_defs demo_defs demo_books_def scenario_4_entry_def Let_def)

lemma demo_step_4:
  "scenario_4_expense_transaction demo_env demo_api (demo_books [(1, 1, 100000, 0), (1, 2, 0, 100000), (2, 1, 50000, 0), (2, 3, 0, 50000)])
      (add_test
       (add_test
       (add_test
       (TestResults_init)
       ''Scenario 1: Basic Balanced Entry'' (PBool True) (Fmt ''Debit: {:,.2f} | Credit: {:,.2f}'' [Finite 100000, Finite 100000]) (PNum 1) ''2026-01-01T00:00:00'')
       ''Scenario 2: Unbalanced Entry Rejection'' (PBool True) (Msg ''System correctly rejected unbalanced entry'') (PNone) ''2026-01-01T00:00:00'')
       ''Scenario 3: Revenue Transaction'' (PBool True) (Fmt ''Revenue Credit: {:,.2f}'' [Finite 50000]) (PNum 2) ''2026-01-01T00:00:00'')
     = Inr (demo_books [(1, 1, 100000, 0), (1, 2, 0, 100000), (2, 1, 50000, 0), (2, 3, 0, 50000), (3, 4, 20000, 0), (3, 1, 0, 20000)],
            add_test
       (add_test
       (add_test
       (add_test
       (TestResults_init)
       ''Scenario 1: Basic Balanced Entry'' (PBool True) (Fmt ''Debit: {:,.2f} | Credit: {:,.2f}'' [Finite 100000, Finite 100000]) (PNum 1) ''2026-01-01T00:00:00'')
       ''Scenario 2: Unbalanced Entry Rejection'' (PBool True) (Msg ''System correctly rejected unbalanced entry'') (PNone) ''2026-01-01T00:00:00'')
       ''Scenario 3: Revenue Transaction'' (PBool True) (Fmt ''Revenue Credit: {:,.2f}'' [Finite 50000]) (PNum 2) ''2026-01-01T00:00:00'')
       ''Scenario 4: Expense Transaction'' (PBool True) (Fmt ''Salary Expense Debit: {:,.2f}'' [Finite 20000]) (PNum 3) ''2026-01-01T00:00:00'',
            PBool True, PNum 3)"
proof -
  have r: "resolves (demo_books [(1, 1, 100000, 0), (1, 2, 0, 100000), (2, 1, 50000, 0), (2, 3, 0, 50000)]) ACCOUNTS_CASH 1"
      "resolves (demo_books [(1, 1, 100000, 0), (1, 2, 0, 100000), (2, 1, 50000, 0), (2, 3, 0, 50000)]) ACCOUNTS_SALARY_EXPENSE 4"
    unfolding resolves_demo_books by (rule demo_resolves)+
  from created_and_posted_Some [OF demo_posted_4] obtain w1 where
    c: "create_journal_entry demo_env (demo_books [(1, 1, 100000, 0), (1, 2, 0, 100000), (2, 1, 50000, 0), (2, 3, 0, 50000)]) demo_api (scenario_4_entry demo_env 1 4)
          = (w1, PNum 3)"
    and p: "post_journal_entry demo_env w1 demo_api (PNum 3) = (demo_books [(1, 1, 100000, 0), (1, 2, 0, 100000), (2, 1, 50000, 0), (2, 3, 0, 50000), (3, 4, 20000, 0), (3, 1, 0, 20000)], True)"
    and g: "get_trial_balance (demo_books [(1, 1, 100000, 0), (1, 2, 0, 100000), (2, 1, 50000, 0), (2, 3, 0, 50000), (3, 4, 20000, 0), (3, 1, 0, 20000)]) TEST_COMPANY_ID
          = Inr [(2, \<lparr>tb_debit = 0, tb_credit = 100000, tb_balance = - 100000\<rparr>),
              (3, \<lparr>tb_debit = 0, tb_credit = 50000, tb_balance = - 50000\<rparr>),
              (4, \<lparr>tb_debit = 20000, tb_credit = 0, tb_balance = 20000\<rparr>),
              (1, \<lparr>tb_debit = 150000, tb_credit = 20000, tb_balance = 130000\<rparr>)]"
    by blast
  have t: "truthy (PNum n)" if "n \<noteq> 0" for n
    using that by simp
  show ?thesis
    unfolding scenario_4_verified [OF r c t p g, simplified]
    by (simp add: demo_clock float_sum_demo float_eval)
qed

lemma demo_posted_5:
  "created_and_posted demo_env demo_api (demo_books [(1, 1, 100000, 0), (1, 2, 0, 100000), (2, 1, 50000, 0), (2, 3, 0, 50000), (3, 4, 20000, 0), (3, 1, 0, 20000)])
       (scenario_5_entry demo_env 1 5)
     = Some (demo_books [(1, 1, 100000, 0), (1, 2, 0, 100000), (2, 1, 50000, 0), (2, 3, 0, 50000), (3, 4, 20000, 0), (3, 1, 0, 20000), (4, 5, 30000, 0), (4, 1, 0, 30000)], PNum 4,
             [(2, \<lparr>tb_debit = 0, tb_credit = 100000, tb_balance = - 100000\<rparr>),
              (3, \<lparr>tb_debit = 0, tb_credit = 50000, tb_balance = - 50000\<rparr>),
              (4, \<lparr>tb_debit = 20000, tb_credit = 0, tb_balance = 20000\<rparr>),
              (5, \<lparr>tb_debit = 30000, tb_credit = 0, tb_balance = 30000\<rparr>),
              (1, \<lparr>tb_debit = 150000, tb_credit = 50000, tb_balance = 100000\<rparr>)])"
  by (simp add: eval_defs demo_defs demo_books_def scenario_5_entry_def Let_def)

lemma demo_step_5:
  "scenario_5_cogs_transaction demo_env demo_api (demo_books [(1, 1, 100000, 0), (1, 2, 0, 100000), (2, 1, 50000, 0), (2, 3, 0, 50000), (3, 4, 20000, 0), (3, 1, 0, 20000)])
      (add_test
       (add_test
       (add_test
       (add_test
       (TestResults_init)
       ''Scenario 1: Basic Balanced Entry'' (PBool True) (Fmt ''Debit: {:,.2f} | Credit: {:,.2f}'' [Finite 100000, Finite 100000]) (PNum 1) ''2026-01-01T00:00:00'')
       ''Scenario 2: Unbalanced Entry Rejection'' (PBool True) (Msg ''System correctly rejected unbalanced entry'') (PNone) ''2026-01-01T00:00:00'')
       ''Scenario 3: Revenue Transaction'' (PBool True) (Fmt ''Revenue Credit: {:,.2f}'' [Finite 50000]) (PNum 2) ''2026-01-01T00:00:00'')
       ''Scenario 4: Expense Transaction'' (PBool True) (Fmt ''Salary Expense Debit: {:,.2f}'' [Finite 20000]) (PNum 3) ''2026-01-01T00:00:00'')
     = Inr (demo_books [(1, 1, 100000, 0), (1, 2, 0, 100000), (2, 1, 50000, 0), (2, 3, 0, 50000), (3, 4, 20000, 0), (3, 1, 0, 20000), (4, 5, 30000, 0), (4, 1, 0, 30000)],
            add_test
       (add_test
       (add_test
       (add_test
       (add_test
       (TestResults_init)
       ''Scenario 1: Basic Balanced Entry'' (PBool True) (Fmt ''Debit: {:,.2f} | Credit: {:,.2f}'' [Finite 100000, Finite 100000]) (PNum 1) ''2026-01-01T00:00:00'')
       ''Scenario 2: Unbalanced Entry Rejection'' (PBool True) (Msg ''System correctly rejected unbalanced entry'') (PNone) ''2026-01-01T00:00:00'')
       ''Scenario 3: Revenue Transaction'' (PBool True) (Fmt ''Revenue Credit: {:,.2f}'' [Finite 50000]) (PNum 2) ''2026-01-01T00:00:00'')
       ''Scenario 4: Expense Transaction'' (PBool True) (Fmt ''Salary Expense Debit: {:,.2f}'' [Finite 20000]) (PNum 3) ''2026-01-01T00:00:00'')
       ''Scenario 5: COGS Transaction'' (PBool True) (Fmt ''COGS Debit: {:,.2f}'' [Finite 30000]) (PNum 4) ''2026-01-01T00:00:00'',
            PBool True, PNum 4)"
proof -
  have r: "resolves (demo_books [(1, 1, 100000, 0), (1, 2, 0, 100000), (2, 1, 50000, 0), (2, 3, 0, 50000), (3, 4, 20000, 0), (3, 1, 0, 20000)]) ACCOUNTS_CASH 1"
      "resolves (demo_books [(1, 1, 100000, 0), (1, 2, 0, 100000), (2, 1, 50000, 0), (2, 3, 0, 50000), (3, 4, 20000, 0), (3, 1, 0, 20000)]) ACCOUNTS_COGS 5"
    unfolding resolves_demo_books by (rule demo_resolves)+
  from created_and_posted_Some [OF demo_posted_5] obtain w1 where
    c: "create_journal_entry demo_env (demo_books [(1, 1, 100000, 0), (1, 2, 0, 100000), (2, 1, 50000, 0), (2, 3, 0, 50000), (3, 4, 20000, 0), (3, 1, 0, 20000)]) demo_api (scenario_5_entry demo_env 1 5)
          = (w1, PNum 4)"
    and p: "post_journal_entry demo_env w1 demo_api (PNum 4) = (demo_books [(1, 1, 100000, 0), (1, 2, 0, 100000), (2, 1, 50000, 0), (2, 3, 0, 50000), (3, 4, 20000, 0), (3, 1, 0, 20000), (4, 5, 30000, 0), (4, 1, 0, 30000)], True)"
    and g: "get_trial_balance (demo_books [(1, 1, 100000, 0), (1, 2, 0, 100000), (2, 1, 50000, 0), (2, 3, 0, 50000), (3, 4, 20000, 0), (3, 1, 0, 20000), (4, 5, 30000, 0), (4, 1, 0, 30000)]) TEST_COMPANY_ID
          = Inr [(2, \<lparr>tb_debit = 0, tb_credit = 100000, tb_balance = - 100000\<rparr>),
              (3, \<lparr>tb_debit = 0, tb_credit = 50000, tb_balance = - 50000\<rparr>),
              (4, \<lparr>tb_debit = 20000, tb_credit = 0, tb_balance = 20000\<rparr>),
              (5, \<lparr>tb_debit = 30000, tb_credit = 0, tb_balance = 30000\<rparr>),
              (1, \<lparr>tb_debit = 150000, tb_credit = 50000, tb_balance = 100000\<rparr>)]"
    by blast
  have t: "truthy (PNum n)" if "n \<noteq> 0" for n
    using that by simp
  show ?thesis
    unfolding scenario_5_verified [OF r c t p g, simplified]
    by (simp add: demo_clock float_sum_demo float_eval)
qed

lemma demo_step_2:
  "scenario_2_unbalanced_entry demo_env demo_api (demo_books [(1, 1, 100000, 0), (1, 2, 0, 100000)])
      (add_test
       (TestResults_init)
       ''Scenario 1: Basic Balanced Entry'' (PBool True) (Fmt ''Debit: {:,.2f} | Credit: {:,.2f}'' [Finite 100000, Finite 100000]) (PNum 1) ''2026-01-01T00:00:00'')
     = Inr (demo_books [(1, 1, 100000, 0), (1, 2, 0, 100000)],
            add_test
       (add_test
       (TestResults_init)
       ''Scenario 1: Basic Balanced Entry'' (PBool True) (Fmt ''Debit: {:,.2f} | Credit: {:,.2f}'' [Finite 100000, Finite 100000]) (PNum 1) ''2026-01-01T00:00:00'')
       ''Scenario 2: Unbalanced Entry Rejection'' (PBool True) (Msg ''System correctly rejected unbalanced entry'') (PNone) ''2026-01-01T00:00:00'',
            PBool True, PNone)"
proof -
  have r: "resolves (demo_books [(1, 1, 100000, 0), (1, 2, 0, 100000)]) ACCOUNTS_CASH 1"
      "resolves (demo_books [(1, 1, 100000, 0), (1, 2, 0, 100000)]) ACCOUNTS_CAPITAL 2"
    unfolding resolves_demo_books by (rule demo_resolves)+
  have c: "create_journal_entry demo_env (demo_books [(1, 1, 100000, 0), (1, 2, 0, 100000)]) demo_api (scenario_2_entry demo_env 1 2)
             = (demo_books [(1, 1, 100000, 0), (1, 2, 0, 100000)], PNone)"
    by (simp add: create_journal_entry_def create_result_def create_response_def demo_env_def
        demo_create_def scenario_2_entry_def)
  show ?thesis
    unfolding scenario_2_submitted [OF r c]
    by (simp add: demo_clock float_sum_demo float_eval)
qed

lemma demo_cross_validation:
  "cross_validation_trial_balance demo_env (demo_books [(1, 1, 100000, 0), (1, 2, 0, 100000), (2, 1, 50000, 0), (2, 3, 0, 50000), (3, 4, 20000, 0), (3, 1, 0, 20000), (4, 5, 30000, 0), (4, 1, 0, 30000)])
      (add_test
       (add_test
       (add_test
       (add_test
       (add_test
       (TestResults_init)
       ''Scenario 1: Basic Balanced Entry'' (PBool True) (Fmt ''Debit: {:,.2f} | Credit: {:,.2f}'' [Finite 100000, Finite 100000]) (PNum 1) ''2026-01-01T00:00:00'')
       ''Scenario 2: Unbalanced Entry Rejection'' (PBool True) (Msg ''System correctly rejected unbalanced entry'') (PNone) ''2026-01-01T00:00:00'')
       ''Scenario 3: Revenue Transaction'' (PBool True) (Fmt ''Revenue Credit: {:,.2f}'' [Finite 50000]) (PNum 2) ''2026-01-01T00:00:00'')
       ''Scenario 4: Expense Transaction'' (PBool True) (Fmt ''Salary Expense Debit: {:,.2f}'' [Finite 20000]) (PNum 3) ''2026-01-01T00:00:00'')
       ''Scenario 5: COGS Transaction'' (PBool True) (Fmt ''COGS Debit: {:,.2f}'' [Finite 30000]) (PNum 4) ''2026-01-01T00:00:00'')
     = Inr (demo_books [(1, 1, 100000, 0), (1, 2, 0, 100000), (2, 1, 50000, 0), (2, 3, 0, 50000), (3, 4, 20000, 0), (3, 1, 0, 20000), (4, 5, 30000, 0), (4, 1, 0, 30000)],
            add_test
       (add_test
       (add_test
       (add_test
       (add_test
       (add_test
       (TestResults_init)
       ''Scenario 1: Basic Balanced Entry'' (PBool True) (Fmt ''Debit: {:,.2f} | Credit: {:,.2f}'' [Finite 100000, Finite 100000]) (PNum 1) ''2026-01-01T00:00:00'')
       ''Scenario 2: Unbalanced Entry Rejection'' (PBool True) (Msg ''System correctly rejected unbalanced entry'') (PNone) ''2026-01-01T00:00:00'')
       ''Scenario 3: Revenue Transaction'' (PBool True) (Fmt ''Revenue Credit: {:,.2f}'' [Finite 50000]) (PNum 2) ''2026-01-01T00:00:00'')
       ''Scenario 4: Expense Transaction'' (PBool True) (Fmt ''Salary Expense Debit: {:,.2f}'' [Finite 20000]) (PNum 3) ''2026-01-01T00:00:00'')
       ''Scenario 5: COGS Transaction'' (PBool True) (Fmt ''COGS Debit: {:,.2f}'' [Finite 30000]) (PNum 4) ''2026-01-01T00:00:00'')
       ''Cross-Validation: TB = GL'' (PBool True) (Fmt ''Difference: {:,.2f}'' [Finite 0]) PNone ''2026-01-01T00:00:00'')"
proof -
  have g: "get_trial_balance (demo_books [(1, 1, 100000, 0), (1, 2, 0, 100000), (2, 1, 50000, 0), (2, 3, 0, 50000), (3, 4, 20000, 0), (3, 1, 0, 20000), (4, 5, 30000, 0), (4, 1, 0, 30000)]) TEST_COMPANY_ID
          = Inr [(2, \<lparr>tb_debit = 0, tb_credit = 100000, tb_balance = - 100000\<rparr>),
              (3, \<lparr>tb_debit = 0, tb_credit = 50000, tb_balance = - 50000\<rparr>),
              (4, \<lparr>tb_debit = 20000, tb_credit = 0, tb_balance = 20000\<rparr>),
              (5, \<lparr>tb_debit = 30000, tb_credit = 0, tb_balance = 30000\<rparr>),
              (1, \<lparr>tb_debit = 150000, tb_credit = 50000, tb_balance = 100000\<rparr>)]"
    using created_and_posted_Some [OF demo_posted_5] by blast
  show ?thesis
    by (simp add: cross_validation_trial_balance_def g Let_def demo_clock float_sum_demo
        float_eval)
qed

lemma demo_counts:
  "passed (add_test
       (add_test
       (add_test
       (add_test
       (add_test
       (add_test
       (TestResults_init)
       ''Scenario 1: Basic Balanced Entry'' (PBool True) (Fmt ''Debit: {:,.2f} | Credit: {:,.2f}'' [Finite 100000, Finite 100000]) (PNum 1) ''2026-01-01T00:00:00'')
       ''Scenario 2: Unbalanced Entry Rejection'' (PBool True) (Msg ''System correctly rejected unbalanced entry'') (PNone) ''2026-01-01T00:00:00'')
       ''Scenario 3: Revenue Transaction'' (PBool True) (Fmt ''Revenue Credit: {:,.2f}'' [Finite 50000]) (PNum 2) ''2026-01-01T00:00:00'')
       ''Scenario 4: Expense Transaction'' (PBool True) (Fmt ''Salary Expense Debit: {:,.2f}'' [Finite 20000]) (PNum 3) ''2026-01-01T00:00:00'')
       ''Scenario 5: COGS Transaction'' (PBool True) (Fmt ''COGS Debit: {:,.2f}'' [Finite 30000]) (PNum 4) ''2026-01-01T00:00:00'')
       ''Cross-Validation: TB = GL'' (PBool True) (Fmt ''Difference: {:,.2f}'' [Finite 0]) PNone ''2026-01-01T00:00:00'') = 6"
  "failed (add_test
       (add_test
       (add_test
       (add_test
       (add_test
       (add_test
       (TestResults_init)
       ''Scenario 1: Basic Balanced Entry'' (PBool True) (Fmt ''Debit: {:,.2f} | Credit: {:,.2f}'' [Finite 100000, Finite 100000]) (PNum 1) ''2026-01-01T00:00:00'')
       ''Scenario 2: Unbalanced Entry Rejection'' (PBool True) (Msg ''System correctly rejected unbalanced entry'') (PNone) ''2026-01-01T00:00:00'')
       ''Scenario 3: Revenue Transaction'' (PBool True) (Fmt ''Revenue Credit: {:,.2f}'' [Finite 50000]) (PNum 2) ''2026-01-01T00:00:00'')
       ''Scenario 4: Expense Transaction'' (PBool True) (Fmt ''Salary Expense Debit: {:,.2f}'' [Finite 20000]) (PNum 3) ''2026-01-01T00:00:00'')
       ''Scenario 5: COGS Transaction'' (PBool True) (Fmt ''COGS Debit: {:,.2f}'' [Finite 30000]) (PNum 4) ''2026-01-01T00:00:00'')
       ''Cross-Validation: TB = GL'' (PBool True) (Fmt ''Difference: {:,.2f}'' [Finite 0]) PNone ''2026-01-01T00:00:00'') = 0"
  by (simp_all add: add_test_def TestResults_init_def Let_def)

lemma run_all_scenarios_steps:
  assumes "scenario_1_balanced_entry E api w st = Inr (w1, r1, ret1)"
    and "scenario_2_unbalanced_entry E api w1 r1 = Inr (w2, r2, ret2)"
    and "scenario_3_revenue_transaction E api w2 r2 = Inr (w3, r3, ret3)"
    and "scenario_4_expense_transaction E api w3 r3 = Inr (w4, r4, ret4)"
    and "scenario_5_cogs_transaction E api w4 r4 = Inr (w5, r5, ret5)"
    and "cross_validation_trial_balance E w5 r5 = Inr (w6, r6)"
    and "print_summary r6 = (out, Inr ())"
  shows "run_all_scenarios E api w st = Inr (w6, r6, out, failed r6 = 0)"
  by (simp add: run_all_scenarios_def assms)

lemma print_summary_ok:
  "passed st + failed st \<noteq> 0 \<Longrightarrow> print_summary st = (fst (print_summary st), Inr ())"
  by (simp add: print_summary_def Let_def)

lemma demo_run:
  "run_all_scenarios demo_env demo_api demo_world TestResults_init
     = Inr (demo_books [(1, 1, 100000, 0), (1, 2, 0, 100000), (2, 1, 50000, 0), (2, 3, 0, 50000), (3, 4, 20000, 0), (3, 1, 0, 20000), (4, 5, 30000, 0), (4, 1, 0, 30000)],
            add_test
       (add_test
       (add_test
       (add_test
       (add_test
       (add_test
       (TestResults_init)
       ''Scenario 1: Basic Balanced Entry'' (PBool True) (Fmt ''Debit: {:,.2f} | Credit: {:,.2f}'' [Finite 100000, Finite 100000]) (PNum 1) ''2026-01-01T00:00:00'')
       ''Scenario 2: Unbalanced Entry Rejection'' (PBool True) (Msg ''System correctly rejected unbalanced entry'') (PNone) ''2026-01-01T00:00:00'')
       ''Scenario 3: Revenue Transaction'' (PBool True) (Fmt ''Revenue Credit: {:,.2f}'' [Finite 50000]) (PNum 2) ''2026-01-01T00:00:00'')
       ''Scenario 4: Expense Transaction'' (PBool True) (Fmt ''Salary Expense Debit: {:,.2f}'' [Finite 20000]) (PNum 3) ''2026-01-01T00:00:00'')
       ''Scenario 5: COGS Transaction'' (PBool True) (Fmt ''COGS Debit: {:,.2f}'' [Finite 30000]) (PNum 4) ''2026-01-01T00:00:00'')
       ''Cross-Validation: TB = GL'' (PBool True) (Fmt ''Difference: {:,.2f}'' [Finite 0]) PNone ''2026-01-01T00:00:00'',
            fst (print_summary
              (add_test
       (add_test
       (add_test
       (add_test
       (add_test
       (add_test
       (TestResults_init)
       ''Scenario 1: Basic Balanced Entry'' (PBool True) (Fmt ''Debit: {:,.2f} | Credit: {:,.2f}'' [Finite 100000, Finite 100000]) (PNum 1) ''2026-01-01T00:00:00'')
       ''Scenario 2: Unbalanced Entry Rejection'' (PBool True) (Msg ''System correctly rejected unbalanced entry'') (PNone) ''2026-01-01T00:00:00'')
       ''Scenario 3: Revenue Transaction'' (PBool True) (Fmt ''Revenue Credit: {:,.2f}'' [Finite 50000]) (PNum 2) ''2026-01-01T00:00:00'')
       ''Scenario 4: Expense Transaction'' (PBool True) (Fmt ''Salary Expense Debit: {:,.2f}'' [Finite 20000]) (PNum 3) ''2026-01-01T00:00:00'')
       ''Scenario 5: COGS Transaction'' (PBool True) (Fmt ''COGS Debit: {:,.2f}'' [Finite 30000]) (PNum 4) ''2026-01-01T00:00:00'')
       ''Cross-Validation: TB = GL'' (PBool True) (Fmt ''Difference: {:,.2f}'' [Finite 0]) PNone ''2026-01-01T00:00:00'')),
            True)"
proof -
  have "passed (add_test
       (add_test
       (add_test
       (add_test
       (add_test
       (add_test
       (TestResults_init)
       ''Scenario 1: Basic Balanced Entry'' (PBool True) (Fmt ''Debit: {:,.2f} | Credit: {:,.2f}'' [Finite 100000, Finite 100000]) (PNum 1) ''2026-01-01T00:00:00'')
       ''Scenario 2: Unbalanced Entry Rejection'' (PBool True) (Msg ''System correctly rejected unbalanced entry'') (PNone) ''2026-01-01T00:00:00'')
       ''Scenario 3: Revenue Transaction'' (PBool True) (Fmt ''Revenue Credit: {:,.2f}'' [Finite 50000]) (PNum 2) ''2026-01-01T00:00:00'')
       ''Scenario 4: Expense Transaction'' (PBool True) (Fmt ''Salary Expense Debit: {:,.2f}'' [Finite 20000]) (PNum 3) ''2026-01-01T00:00:00'')
       ''Scenario 5: COGS Transaction'' (PBool True) (Fmt ''COGS Debit: {:,.2f}'' [Finite 30000]) (PNum 4) ''2026-01-01T00:00:00'')
       ''Cross-Validation: TB = GL'' (PBool True) (Fmt ''Difference: {:,.2f}'' [Finite 0]) PNone ''2026-01-01T00:00:00'')
        + failed (add_test
       (add_test
       (add_test
       (add_test
       (add_test
       (add_test
       (TestResults_init)
       ''Scenario 1: Basic Balanced Entry'' (PBool True) (Fmt ''Debit: {:,.2f} | Credit: {:,.2f}'' [Finite 100000, Finite 100000]) (PNum 1) ''2026-01-01T00:00:00'')
       ''Scenario 2: Unbalanced Entry Rejection'' (PBool True) (Msg ''System correctly rejected unbalanced entry'') (PNone) ''2026-01-01T00:00:00'')
       ''Scenario 3: Revenue Transaction'' (PBool True) (Fmt ''Revenue Credit: {:,.2f}'' [Finite 50000]) (PNum 2) ''2026-01-01T00:00:00'')
       ''Scenario 4: Expense Transaction'' (PBool True) (Fmt ''Salary Expense Debit: {:,.2f}'' [Finite 20000]) (PNum 3) ''2026-01-01T00:00:00'')
       ''Scenario 5: COGS Transaction'' (PBool True) (Fmt ''COGS Debit: {:,.2f}'' [Finite 30000]) (PNum 4) ''2026-01-01T00:00:00'')
       ''Cross-Validation: TB = GL'' (PBool True) (Fmt ''Difference: {:,.2f}'' [Finite 0]) PNone ''2026-01-01T00:00:00'') \<noteq> 0"
    unfolding demo_counts by simp
  then have ps: "print_summary (add_test
       (add_test
       (add_test
       (add_test
       (add_test
       (add_test
       (TestResults_init)
       ''Scenario 1: Basic Balanced Entry'' (PBool True) (Fmt ''Debit: {:,.2f} | Credit: {:,.2f}'' [Finite 100000, Finite 100000]) (PNum 1) ''2026-01-01T00:00:00'')
       ''Scenario 2: Unbalanced Entry Rejection'' (PBool True) (Msg ''System correctly rejected unbalanced entry'') (PNone) ''2026-01-01T00:00:00'')
       ''Scenario 3: Revenue Transaction'' (PBool True) (Fmt ''Revenue Credit: {:,.2f}'' [Finite 50000]) (PNum 2) ''2026-01-01T00:00:00'')
       ''Scenario 4: Expense Transaction'' (PBool True) (Fmt ''Salary Expense Debit: {:,.2f}'' [Finite 20000]) (PNum 3) ''2026-01-01T00:00:00'')
       ''Scenario 5: COGS Transaction'' (PBool True) (Fmt ''COGS Debit: {:,.2f}'' [Finite 30000]) (PNum 4) ''2026-01-01T00:00:00'')
       ''Cross-Validation: TB = GL'' (PBool True) (Fmt ''Difference: {:,.2f}'' [Finite 0]) PNone ''2026-01-01T00:00:00'')
       = (fst (print_summary (add_test
       (add_test
       (add_test
       (add_test
       (add_test
       (add_test
       (TestResults_init)
       ''Scenario 1: Basic Balanced Entry'' (PBool True) (Fmt ''Debit: {:,.2f} | Credit: {:,.2f}'' [Finite 100000, Finite 100000]) (PNum 1) ''2026-01-01T00:00:00'')
       ''Scenario 2: Unbalanced Entry Rejection'' (PBool True) (Msg ''System correctly rejected unbalanced entry'') (PNone) ''2026-01-01T00:00:00'')
       ''Scenario 3: Revenue Transaction'' (PBool True) (Fmt ''Revenue Credit: {:,.2f}'' [Finite 50000]) (PNum 2) ''2026-01-01T00:00:00'')
       ''Scenario 4: Expense Transaction'' (PBool True) (Fmt ''Salary Expense Debit: {:,.2f}'' [Finite 20000]) (PNum 3) ''2026-01-01T00:00:00'')
       ''Scenario 5: COGS Transaction'' (PBool True) (Fmt ''COGS Debit: {:,.2f}'' [Finite 30000]) (PNum 4) ''2026-01-01T00:00:00'')
       ''Cross-Validation: TB = GL'' (PBool True) (Fmt ''Difference: {:,.2f}'' [Finite 0]) PNone ''2026-01-01T00:00:00'')), Inr ())"
    by (rule print_summary_ok)
  have z: "(failed (add_test
       (add_test
       (add_test
       (add_test
       (add_test
       (add_test
       (TestResults_init)
       ''Scenario 1: Basic Balanced Entry'' (PBool True) (Fmt ''Debit: {:,.2f} | Credit: {:,.2f}'' [Finite 100000, Finite 100000]) (PNum 1) ''2026-01-01T00:00:00'')
       ''Scenario 2: Unbalanced Entry Rejection'' (PBool True) (Msg ''System correctly rejected unbalanced entry'') (PNone) ''2026-01-01T00:00:00'')
       ''Scenario 3: Revenue Transaction'' (PBool True) (Fmt ''Revenue Credit: {:,.2f}'' [Finite 50000]) (PNum 2) ''2026-01-01T00:00:00'')
       ''Scenario 4: Expense Transaction'' (PBool True) (Fmt ''Salary Expense Debit: {:,.2f}'' [Finite 20000]) (PNum 3) ''2026-01-01T00:00:00'')
       ''Scenario 5: COGS Transaction'' (PBool True) (Fmt ''COGS Debit: {:,.2f}'' [Finite 30000]) (PNum 4) ''2026-01-01T00:00:00'')
       ''Cross-Validation: TB = GL'' (PBool True) (Fmt ''Difference: {:,.2f}'' [Finite 0]) PNone ''2026-01-01T00:00:00'') = 0) = True"
    unfolding demo_counts by simp
  show ?thesis
    unfolding run_all_scenarios_steps
          [OF demo_step_1 demo_step_2 demo_step_3 demo_step_4 demo_step_5
              demo_cross_validation ps] z
    by (rule refl)
qed

lemma demo_main:
  "main demo_env demo_world None
     = finish False (demo_books [(1, 1, 100000, 0), (1, 2, 0, 100000), (2, 1, 50000, 0), (2, 3, 0, 50000), (3, 4, 20000, 0), (3, 1, 0, 20000), (4, 5, 30000, 0), (4, 1, 0, 30000)])
         (add_test
       (add_test
       (add_test
       (add_test
       (add_test
       (add_test
       (TestResults_init)
       ''Scenario 1: Basic Balanced Entry'' (PBool True) (Fmt ''Debit: {:,.2f} | Credit: {:,.2f}'' [Finite 100000, Finite 100000]) (PNum 1) ''2026-01-01T00:00:00'')
       ''Scenario 2: Unbalanced Entry Rejection'' (PBool True) (Msg ''System correctly rejected unbalanced entry'') (PNone) ''2026-01-01T00:00:00'')
       ''Scenario 3: Revenue Transaction'' (PBool True) (Fmt ''Revenue Credit: {:,.2f}'' [Finite 50000]) (PNum 2) ''2026-01-01T00:00:00'')
       ''Scenario 4: Expense Transaction'' (PBool True) (Fmt ''Salary Expense Debit: {:,.2f}'' [Finite 20000]) (PNum 3) ''2026-01-01T00:00:00'')
       ''Scenario 5: COGS Transaction'' (PBool True) (Fmt ''COGS Debit: {:,.2f}'' [Finite 30000]) (PNum 4) ''2026-01-01T00:00:00'')
       ''Cross-Validation: TB = GL'' (PBool True) (Fmt ''Difference: {:,.2f}'' [Finite 0]) PNone ''2026-01-01T00:00:00'')
         (Some EmptyFile)"
proof -
  have 1: "connect_db demo_world = Inr ()"
    by (simp add: connect_db_def demo_world_def)
  have 2: "file_writable demo_env"
    by (simp add: demo_env_def)
  have "tests (add_test
       (add_test
       (add_test
       (add_test
       (add_test
       (add_test
       (TestResults_init)
       ''Scenario 1: Basic Balanced Entry'' (PBool True) (Fmt ''Debit: {:,.2f} | Credit: {:,.2f}'' [Finite 100000, Finite 100000]) (PNum 1) ''2026-01-01T00:00:00'')
       ''Scenario 2: Unbalanced Entry Rejection'' (PBool True) (Msg ''System correctly rejected unbalanced entry'') (PNone) ''2026-01-01T00:00:00'')
       ''Scenario 3: Revenue Transaction'' (PBool True) (Fmt ''Revenue Credit: {:,.2f}'' [Finite 50000]) (PNum 2) ''2026-01-01T00:00:00'')
       ''Scenario 4: Expense Transaction'' (PBool True) (Fmt ''Salary Expense Debit: {:,.2f}'' [Finite 20000]) (PNum 3) ''2026-01-01T00:00:00'')
       ''Scenario 5: COGS Transaction'' (PBool True) (Fmt ''COGS Debit: {:,.2f}'' [Finite 30000]) (PNum 4) ''2026-01-01T00:00:00'')
       ''Cross-Validation: TB = GL'' (PBool True) (Fmt ''Difference: {:,.2f}'' [Finite 0]) PNone ''2026-01-01T00:00:00'') \<noteq> []"
    unfolding add_test_tests by simp
  then have 3: "comprehension dunder_dict (tests
         (add_test
       (add_test
       (add_test
       (add_test
       (add_test
       (add_test
       (TestResults_init)
       ''Scenario 1: Basic Balanced Entry'' (PBool True) (Fmt ''Debit: {:,.2f} | Credit: {:,.2f}'' [Finite 100000, Finite 100000]) (PNum 1) ''2026-01-01T00:00:00'')
       ''Scenario 2: Unbalanced Entry Rejection'' (PBool True) (Msg ''System correctly rejected unbalanced entry'') (PNone) ''2026-01-01T00:00:00'')
       ''Scenario 3: Revenue Transaction'' (PBool True) (Fmt ''Revenue Credit: {:,.2f}'' [Finite 50000]) (PNum 2) ''2026-01-01T00:00:00'')
       ''Scenario 4: Expense Transaction'' (PBool True) (Fmt ''Salary Expense Debit: {:,.2f}'' [Finite 20000]) (PNum 3) ''2026-01-01T00:00:00'')
       ''Scenario 5: COGS Transaction'' (PBool True) (Fmt ''COGS Debit: {:,.2f}'' [Finite 30000]) (PNum 4) ''2026-01-01T00:00:00'')
       ''Cross-Validation: TB = GL'' (PBool True) (Fmt ''Difference: {:,.2f}'' [Finite 0]) PNone ''2026-01-01T00:00:00'')) = Inl AttributeError"
    by (rule comprehension_dunder_dict)
  show ?thesis
    by (simp add: main_def 1 2 3 demo_login_ok demo_run)
qed

text \<open>C1 fails on the code. A run against the demo ledger completes all five scenarios
  and the cross-validation, six results with their entry identifiers; the results file is
  then opened for writing, and the list comprehension \<^verbatim>\<open>[t.__dict__ for t in ...]\<close>
  raises on the first result, a plain dict, before \<^verbatim>\<open>json.dump\<close> is called: the file
  is left empty, there is no document to load again.\<close>

theorem results_file_left_empty:
  "map t_name (tests (end_results (main demo_env demo_world None)))
     = [''Scenario 1: Basic Balanced Entry'', ''Scenario 2: Unbalanced Entry Rejection'',
        ''Scenario 3: Revenue Transaction'', ''Scenario 4: Expense Transaction'',
        ''Scenario 5: COGS Transaction'', ''Cross-Validation: TB = GL'']
   \<and> map t_entry_id (tests (end_results (main demo_env demo_world None)))
     = [PNum 1, PNone, PNum 2, PNum 3, PNum 4, PNone]
   \<and> results_file (main demo_env demo_world None) = Some EmptyFile"
  unfolding demo_main
  by (simp add: finish_def add_test_tests TestResults_init_def)

text \<open>C2 fails on the code. In the same run every recorded check passed and no failure
  is counted, and the process exits with 1: the exception of the serialization is caught
  by \<^verbatim>\<open>except Exception\<close> in \<^verbatim>\<open>main\<close>, which returns False.\<close>

theorem exit_code_1_though_all_checks_passed:
  "map t_passed (tests (end_results (main demo_env demo_world None)))
     = [PBool True, PBool True, PBool True, PBool True, PBool True, PBool True]
   \<and> failed (end_results (main demo_env demo_world None)) = 0
   \<and> exit_code (main demo_env demo_world None) = 1"
proof -
  have "tests TestResults_init = []"
    by (simp add: TestResults_init_def)
  then show ?thesis
    unfolding demo_main
    by (simp add: finish_def add_test_tests demo_counts)
qed

end
